theory Spec2Isabelle
  imports Main "HOL-Library.Word"
begin

unbundle bit_operations_syntax

section \<open>JavaScript numbers and bitwise operators\<close>

text \<open>
  The codec and the RTP engine compute on JavaScript numbers that hold integers.
  Arithmetic (\<open>+\<close>, \<open>-\<close>, comparison) is exact on them and is modelled on \<open>int\<close>.
  Every bitwise operator first converts its operands to a signed 32-bit integer
  (ToInt32) and yields a signed 32-bit integer; shift counts are taken modulo 32.
\<close>

definition toInt32 :: "int \<Rightarrow> int" where
  "toInt32 x = signed_take_bit 31 x"

definition js_and :: "int \<Rightarrow> int \<Rightarrow> int" where
  "js_and a b = toInt32 a AND toInt32 b"

definition js_or :: "int \<Rightarrow> int \<Rightarrow> int" where
  "js_or a b = toInt32 a OR toInt32 b"

definition js_xor :: "int \<Rightarrow> int \<Rightarrow> int" where
  "js_xor a b = toInt32 a XOR toInt32 b"

definition js_not :: "int \<Rightarrow> int" where
  "js_not a = NOT (toInt32 a)"

definition js_shr :: "int \<Rightarrow> int \<Rightarrow> int" where
  "js_shr a n = drop_bit (nat (n mod 32)) (toInt32 a)"

definition js_shl :: "int \<Rightarrow> int \<Rightarrow> int" where
  "js_shl a n = toInt32 (push_bit (nat (n mod 32)) (toInt32 a))"

section \<open>G.711 codec (audio-codec.js)\<close>

definition MULAW_BIAS :: int where
  "MULAW_BIAS = 0x84"

definition MULAW_CLIP :: int where
  "MULAW_CLIP = 32635"

definition mulawEncodeTable :: "int list" where
  "mulawEncodeTable = [
  0,0,1,1,2,2,2,2,3,3,3,3,3,3,3,3,
  4,4,4,4,4,4,4,4,4,4,4,4,4,4,4,4,
  5,5,5,5,5,5,5,5,5,5,5,5,5,5,5,5,
  5,5,5,5,5,5,5,5,5,5,5,5,5,5,5,5,
  6,6,6,6,6,6,6,6,6,6,6,6,6,6,6,6,
  6,6,6,6,6,6,6,6,6,6,6,6,6,6,6,6,
  6,6,6,6,6,6,6,6,6,6,6,6,6,6,6,6,
  6,6,6,6,6,6,6,6,6,6,6,6,6,6,6,6,
  7,7,7,7,7,7,7,7,7,7,7,7,7,7,7,7,
  7,7,7,7,7,7,7,7,7,7,7,7,7,7,7,7,
  7,7,7,7,7,7,7,7,7,7,7,7,7,7,7,7,
  7,7,7,7,7,7,7,7,7,7,7,7,7,7,7,7,
  7,7,7,7,7,7,7,7,7,7,7,7,7,7,7,7,
  7,7,7,7,7,7,7,7,7,7,7,7,7,7,7,7,
  7,7,7,7,7,7,7,7,7,7,7,7,7,7,7,7,
  7,7,7,7,7,7,7,7,7,7,7,7,7,7,7,7]"

text \<open>
  \<open>pcmToMulaw(sample)\<close>. The table index \<open>(sample >> 7) & 0xFF\<close> lies in
  \<open>0..255\<close>, so the lookup is always inside the 256-entry table.
\<close>

definition pcmToMulaw :: "int \<Rightarrow> int" where
  "pcmToMulaw sample0 =
    (let sign = js_and (js_shr sample0 8) 0x80;
         sample1 = (if sign \<noteq> 0 then - sample0 else sample0);
         sample2 = (if sample1 > MULAW_CLIP then MULAW_CLIP else sample1);
         sample = sample2 + MULAW_BIAS;
         exponent = mulawEncodeTable ! nat (js_and (js_shr sample 7) 0xFF);
         mantissa = js_and (js_shr sample (exponent + 3)) 0x0F;
         mulawByte = js_not (js_or (js_or sign (js_shl exponent 4)) mantissa)
     in js_and mulawByte 0xFF)"

definition mulawToPcm :: "int \<Rightarrow> int" where
  "mulawToPcm mulawByte0 =
    (let mulawByte = js_and (js_not mulawByte0) 0xFF;
         sign = js_and mulawByte 0x80;
         exponent = js_and (js_shr mulawByte 4) 0x07;
         mantissa = js_and mulawByte 0x0F;
         sample0 = js_shl (js_shl mantissa 3 + MULAW_BIAS) exponent;
         sample = sample0 - MULAW_BIAS
     in if sign \<noteq> 0 then - sample else sample)"

text \<open>
  \<open>Math.floor(Math.log2(sample))\<close> is only evaluated for integers
  \<open>256 \<le> sample \<le> 32767\<close>, where it is the position of the highest set bit.
\<close>

fun floor_log2 :: "nat \<Rightarrow> nat" where
  "floor_log2 n = (if n < 2 then 0 else Suc (floor_log2 (n div 2)))"

declare floor_log2.simps [simp del]

definition pcmToAlaw :: "int \<Rightarrow> int" where
  "pcmToAlaw sample0 =
    (let sign = (if sample0 < 0 then 0x80 else 0);
         sample1 = (if sample0 < 0 then - sample0 else sample0);
         sample = (if sample1 > 32767 then 32767 else sample1);
         companded =
           (if sample \<ge> 256 then
              let exponent0 = int (floor_log2 (nat sample)) - 4;
                  exponent = (if exponent0 > 7 then 7 else exponent0);
                  mantissa = js_and (js_shr sample (exponent + 3)) 0x0F
              in js_or (js_shl exponent 4) mantissa
            else js_shr sample 4)
     in js_xor (js_or companded sign) 0x55)"

definition alawToPcm :: "int \<Rightarrow> int" where
  "alawToPcm alawByte0 =
    (let alawByte = js_xor alawByte0 0x55;
         sign = js_and alawByte 0x80;
         exponent = js_and (js_shr alawByte 4) 0x07;
         mantissa = js_and alawByte 0x0F;
         sample = (if exponent = 0 then js_shl mantissa 4 + 8
                   else js_shl (js_shl mantissa 3 + 0x84) exponent)
     in if sign \<noteq> 0 then - sample else sample)"


text \<open>
  Buffer-level functions. A \<open>Buffer\<close> is a list of bytes, each an integer in
  \<open>0..255\<close>. \<open>new Int16Array(buf.buffer, buf.byteOffset, buf.byteLength / 2)\<close> reads
  the bytes pairwise as little-endian two's-complement samples (the byte order of the
  platforms the application runs on) and ignores a trailing odd byte. Storing a number
  into a \<open>Buffer\<close> slot keeps its low eight bits.
\<close>

fun int16View :: "int list \<Rightarrow> int list" where
  "int16View (lo # hi # rest) =
     (let v = lo + 256 * hi in if v \<ge> 32768 then v - 65536 else v) # int16View rest"
| "int16View _ = []"

definition uint8_store :: "int \<Rightarrow> int" where
  "uint8_store v = v mod 256"

text \<open>
  \<open>buf.writeInt16LE(value, offset)\<close> of Node's Buffer API raises a RangeError when
  \<open>value\<close> is outside \<open>-32768..32767\<close>; otherwise it stores the two bytes of the
  two's-complement form, low byte first. \<open>None\<close> is the RangeError.
\<close>

definition writeInt16LE :: "int \<Rightarrow> int list option" where
  "writeInt16LE v =
     (if - 32768 \<le> v \<and> v \<le> 32767 then Some [v mod 256, (v div 256) mod 256] else None)"

definition encodeMulaw :: "int list \<Rightarrow> int list" where
  "encodeMulaw pcmBuf = map (\<lambda>s. uint8_store (pcmToMulaw s)) (int16View pcmBuf)"

definition encodeAlaw :: "int list \<Rightarrow> int list" where
  "encodeAlaw pcmBuf = map (\<lambda>s. uint8_store (pcmToAlaw s)) (int16View pcmBuf)"

text \<open>
  \<open>encodeMulaw\<close> and \<open>encodeAlaw\<close> above are the encoders on the bytes of a
  \<open>Buffer\<close> that starts at an even \<open>byteOffset\<close> of its \<open>ArrayBuffer\<close>. At an
  odd \<open>byteOffset\<close> the \<open>Int16Array\<close> constructor raises a RangeError before any
  sample is read; \<open>None\<close> is that error.
\<close>

definition encodeMulaw_at :: "nat \<Rightarrow> int list \<Rightarrow> int list option" where
  "encodeMulaw_at byteOffset pcmBuf = (if odd byteOffset then None else Some (encodeMulaw pcmBuf))"

definition encodeAlaw_at :: "nat \<Rightarrow> int list \<Rightarrow> int list option" where
  "encodeAlaw_at byteOffset pcmBuf = (if odd byteOffset then None else Some (encodeAlaw pcmBuf))"

fun decodeMulaw :: "int list \<Rightarrow> int list option" where
  "decodeMulaw [] = Some []"
| "decodeMulaw (b # bs) =
     (case writeInt16LE (mulawToPcm b) of
        None \<Rightarrow> None
      | Some w \<Rightarrow> (case decodeMulaw bs of None \<Rightarrow> None | Some out \<Rightarrow> Some (w @ out)))"

fun decodeAlaw :: "int list \<Rightarrow> int list option" where
  "decodeAlaw [] = Some []"
| "decodeAlaw (b # bs) =
     (case writeInt16LE (alawToPcm b) of
        None \<Rightarrow> None
      | Some w \<Rightarrow> (case decodeAlaw bs of None \<Rightarrow> None | Some out \<Rightarrow> Some (w @ out)))"

text \<open>Predicates evaluated over the finite tables used in the codec proofs.\<close>

definition sign_bit_ok :: "int \<Rightarrow> bool" where
  "sign_bit_ok a \<longleftrightarrow> js_and a 0x80 = (if a < 0 then 0x80 else 0)"

definition mulaw_pack :: "int \<Rightarrow> int \<Rightarrow> int \<Rightarrow> int" where
  "mulaw_pack sign exponent mantissa =
     js_and (js_not (js_or (js_or sign (js_shl exponent 4)) mantissa)) 0xFF"

definition mulaw_pack_ok :: "int \<Rightarrow> int \<Rightarrow> int \<Rightarrow> bool" where
  "mulaw_pack_ok s e m \<longleftrightarrow> mulaw_pack s e m = 255 - s - 16 * e - m"

definition mulaw_byte_fixed :: "int \<Rightarrow> bool" where
  "mulaw_byte_fixed b \<longleftrightarrow> b = 0x7F \<or> pcmToMulaw (mulawToPcm b) = b"


section \<open>Rendering values in template literals\<close>

definition digit_char :: "nat \<Rightarrow> char" where
  "digit_char d = ''0123456789'' ! d"

fun show_nat :: "nat \<Rightarrow> string" where
  "show_nat n = (if n < 10 then [digit_char n] else show_nat (n div 10) @ [digit_char (n mod 10)])"

declare show_nat.simps [simp del]

definition show_int :: "int \<Rightarrow> string" where
  "show_int i = (if i < 0 then ''-'' @ show_nat (nat (- i)) else show_nat (nat i))"

text \<open>
  A string-valued property that may be missing is a \<open>string option\<close>; a template
  literal renders the missing value as \<open>undefined\<close>. A port that \<open>parseInt\<close> could
  not read is \<open>None\<close> and renders as \<open>NaN\<close>.
\<close>

definition tmpl_str :: "string option \<Rightarrow> string" where
  "tmpl_str v = (case v of None \<Rightarrow> ''undefined'' | Some s \<Rightarrow> s)"

definition tmpl_port :: "nat option \<Rightarrow> string" where
  "tmpl_port v = (case v of None \<Rightarrow> ''NaN'' | Some p \<Rightarrow> show_nat p)"

section \<open>RTP engine (rtp-engine.js)\<close>

definition RTP_HEADER_SIZE :: nat where
  "RTP_HEADER_SIZE = 12"

definition SAMPLES_PER_PACKET :: nat where
  "SAMPLES_PER_PACKET = (8000 * 20) div 1000"

text \<open>
  The fields of \<open>RtpEngine\<close>. \<open>socket\<close> and \<open>sendInterval\<close> record whether the
  UDP socket and the 20 ms timer exist; \<open>remoteAddress\<close> is \<open>None\<close> for \<open>null\<close> or
  \<open>undefined\<close>; \<open>micBuffer\<close> is the queue of PCM blocks, oldest first, each a
  \<open>Buffer\<close> given by its \<open>byteOffset\<close> and its bytes.
\<close>

record rtp_engine =
  socket :: bool
  localPort :: nat
  remoteAddress :: "string option"
  remotePort :: "nat option"
  ssrc :: int
  sequenceNumber :: int
  timestamp :: int
  payloadType :: int
  sendInterval :: bool
  active :: bool
  muted :: bool
  micBuffer :: "(nat \<times> int list) list"

datatype js_error = RangeError | TypeError | ConnectTimeout

text \<open>
  What a method of the engine does to the outside: events emitted on the engine
  (\<open>log\<close>, \<open>audio\<close>), a datagram handed to \<open>socket.send\<close> with its destination, and
  an exception that leaves the method uncaught.
\<close>

datatype rtp_event =
    Log string
  | Audio "int list"
  | SendTo "int list" string "nat option"
  | Uncaught js_error

text \<open>
  The constructor draws \<open>ssrc\<close>, \<open>sequenceNumber\<close> and \<open>timestamp\<close> from
  \<open>Math.floor(Math.random() * K)\<close> with \<open>K\<close> = \<open>0xFFFFFFFF\<close>, \<open>0xFFFF\<close>,
  \<open>0xFFFFFFFF\<close>; the three draws are the arguments, each in \<open>0..K-1\<close>.
\<close>

definition RtpEngine_new :: "int \<Rightarrow> int \<Rightarrow> int \<Rightarrow> rtp_engine" where
  "RtpEngine_new r_ssrc r_seq r_ts =
     \<lparr>socket = False, localPort = 0, remoteAddress = None, remotePort = None,
      ssrc = r_ssrc, sequenceNumber = r_seq, timestamp = r_ts, payloadType = 0,
      sendInterval = False, active = False, muted = False, micBuffer = []\<rparr>"

text \<open>\<open>bind()\<close>: the operating system picks the port.\<close>

definition bind_rtp :: "rtp_engine \<Rightarrow> nat \<Rightarrow> rtp_event list \<times> rtp_engine" where
  "bind_rtp e port =
     ([Log (''RTP socket bound on port '' @ show_nat port)],
      e\<lparr>socket := True, localPort := port\<rparr>)"

definition start :: "rtp_engine \<Rightarrow> string option \<Rightarrow> nat option \<Rightarrow> int \<Rightarrow> rtp_event list \<times> rtp_engine" where
  "start e remoteAddress' remotePort' payloadType' =
     ([Log (''RTP streaming to '' @ tmpl_str remoteAddress' @ '':'' @ tmpl_port remotePort'
            @ '' (PT='' @ show_int payloadType' @ '')'')],
      e\<lparr>remoteAddress := remoteAddress', remotePort := remotePort',
        payloadType := payloadType', active := True, sendInterval := True\<rparr>)"

definition stop :: "rtp_engine \<Rightarrow> rtp_engine" where
  "stop e = e\<lparr>active := False, sendInterval := False, micBuffer := []\<rparr>"

definition close :: "rtp_engine \<Rightarrow> rtp_engine" where
  "close e = (stop e)\<lparr>socket := False\<rparr>"

definition feedMicAudio :: "rtp_engine \<Rightarrow> nat \<times> int list \<Rightarrow> rtp_engine" where
  "feedMicAudio e pcmData =
     (if \<not> active e \<or> muted e then e else e\<lparr>micBuffer := micBuffer e @ [pcmData]\<rparr>)"

definition setMuted :: "rtp_engine \<Rightarrow> bool \<Rightarrow> rtp_engine" where
  "setMuted e muted' =
     (let e1 = e\<lparr>muted := muted'\<rparr> in if muted' then e1\<lparr>micBuffer := []\<rparr> else e1)"

definition updateRemote :: "rtp_engine \<Rightarrow> string \<Rightarrow> nat \<Rightarrow> rtp_event list \<times> rtp_engine" where
  "updateRemote e address port =
     ([Log (''RTP remote updated to '' @ address @ '':'' @ show_nat port)],
      e\<lparr>remoteAddress := Some address, remotePort := Some port\<rparr>)"

text \<open>
  \<open>buf.writeUInt16BE\<close> and \<open>buf.writeUInt32BE\<close> of Node's Buffer API raise a
  RangeError when the value is outside the unsigned range; otherwise they store the
  bytes, high byte first. \<open>None\<close> is the RangeError.
\<close>

definition writeUInt16BE :: "int \<Rightarrow> int list option" where
  "writeUInt16BE v =
     (if 0 \<le> v \<and> v \<le> 65535 then Some [v div 256, v mod 256] else None)"

definition writeUInt32BE :: "int \<Rightarrow> int list option" where
  "writeUInt32BE v =
     (if 0 \<le> v \<and> v \<le> 4294967295
      then Some [v div 16777216, (v div 65536) mod 256, (v div 256) mod 256, v mod 256]
      else None)"

definition buildRtpPacket :: "rtp_engine \<Rightarrow> int list \<Rightarrow> int list option" where
  "buildRtpPacket e payload =
     (case writeUInt16BE (sequenceNumber e) of
        None \<Rightarrow> None
      | Some seq_bytes \<Rightarrow>
          (case writeUInt32BE (timestamp e) of
             None \<Rightarrow> None
           | Some ts_bytes \<Rightarrow>
               (case writeUInt32BE (ssrc e) of
                  None \<Rightarrow> None
                | Some ssrc_bytes \<Rightarrow>
                    Some ([0x80, uint8_store (js_and (payloadType e) 0x7F)]
                          @ seq_bytes @ ts_bytes @ ssrc_bytes @ payload))))"

text \<open>A JavaScript string is falsy exactly when it is missing or empty.\<close>

definition falsy_str :: "string option \<Rightarrow> bool" where
  "falsy_str v = (case v of None \<Rightarrow> True | Some s \<Rightarrow> s = [])"

text \<open>
  \<open>socket.send(packet, 0, packet.length, port, address, callback)\<close> of Node's dgram
  API raises a RangeError (ERR_SOCKET_BAD_PORT) when the port is not an integer in
  \<open>1..65535\<close>; a port that is \<open>null\<close> or \<open>NaN\<close> is \<open>None\<close>.
\<close>

definition valid_port :: "nat option \<Rightarrow> bool" where
  "valid_port p = (case p of None \<Rightarrow> False | Some n \<Rightarrow> 1 \<le> n \<and> n \<le> 65535)"

text \<open>
  \<open>_sendPacket()\<close>, one timer tick. The queue block is taken off \<open>micBuffer\<close> before
  it is encoded and the packet is built, so it is gone even when one of these steps or
  \<open>socket.send\<close> raises; the sequence number and the timestamp advance only after
  \<open>socket.send\<close> has returned. The completion callback of \<open>socket.send\<close> runs later
  and is not part of the tick.
\<close>

definition sendPacket :: "rtp_engine \<Rightarrow> rtp_event list \<times> rtp_engine" where
  "sendPacket e =
     (if \<not> active e \<or> \<not> socket e \<or> falsy_str (remoteAddress e) then ([], e)
      else
        let (encoded, e1) =
              (if \<not> muted e \<and> length (micBuffer e) > 0 then
                 let pcmData = hd (micBuffer e);
                     e' = e\<lparr>micBuffer := tl (micBuffer e)\<rparr>
                 in (if payloadType e = 8 then encodeAlaw_at (fst pcmData) (snd pcmData)
                     else encodeMulaw_at (fst pcmData) (snd pcmData), e')
               else
                 (Some (replicate SAMPLES_PER_PACKET (if payloadType e = 8 then 0xD5 else 0xFF)), e))
        in case encoded of
             None \<Rightarrow> ([Uncaught RangeError], e1)
           | Some payload \<Rightarrow>
               (case buildRtpPacket e1 payload of
                  None \<Rightarrow> ([Uncaught RangeError], e1)
                | Some packet \<Rightarrow>
                    if \<not> valid_port (remotePort e1) then ([Uncaught RangeError], e1)
                    else
                      ([SendTo packet (the (remoteAddress e1)) (remotePort e1)],
                       e1\<lparr>sequenceNumber := js_and (sequenceNumber e1 + 1) 0xFFFF,
                          timestamp := js_and (timestamp e1 + int SAMPLES_PER_PACKET) 0xFFFFFFFF\<rparr>)))"

text \<open>
  \<open>_handleIncoming(msg, rinfo)\<close>: \<open>msg\<close> is the datagram, \<open>rinfo\<close> the source
  address and port. The header bytes are read only after the length check.
\<close>

definition handleIncoming :: "rtp_engine \<Rightarrow> int list \<Rightarrow> string \<times> nat \<Rightarrow> rtp_event list \<times> rtp_engine" where
  "handleIncoming e msg rinfo =
     (if length msg < RTP_HEADER_SIZE then ([], e)
      else
        let version = js_and (js_shr (msg ! 0) 6) 0x03 in
        if version \<noteq> 2 then ([], e)
        else
          let pt = js_and (msg ! 1) 0x7F;
              payload = drop RTP_HEADER_SIZE msg
          in
          if length payload = 0 then ([], e)
          else
            let (learned, e1) =
                  (if falsy_str (remoteAddress e) \<or> remoteAddress e = Some ''0.0.0.0'' then
                     ([Log (''RTP symmetric: learned remote '' @ fst rinfo @ '':''
                            @ show_nat (snd rinfo))],
                      e\<lparr>remoteAddress := Some (fst rinfo), remotePort := Some (snd rinfo)\<rparr>)
                   else ([], e))
            in
            if pt = 0 then
              (case decodeMulaw payload of
                 None \<Rightarrow> (learned @ [Uncaught RangeError], e1)
               | Some pcmData \<Rightarrow> (learned @ [Audio pcmData], e1))
            else if pt = 8 then
              (case decodeAlaw payload of
                 None \<Rightarrow> (learned @ [Uncaught RangeError], e1)
               | Some pcmData \<Rightarrow> (learned @ [Audio pcmData], e1))
            else (learned, e1))"

text \<open>
  Calls that can reach an engine between two changes of its mute state: microphone
  blocks, timer ticks, datagrams, and a new destination.
\<close>

datatype rtp_call =
    Feed "nat \<times> int list"
  | Tick
  | Incoming "int list" "string \<times> nat"
  | UpdateRemote string nat

fun rtp_step :: "rtp_engine \<Rightarrow> rtp_call \<Rightarrow> rtp_event list \<times> rtp_engine" where
  "rtp_step e (Feed pcmData) = ([], feedMicAudio e pcmData)"
| "rtp_step e Tick = sendPacket e"
| "rtp_step e (Incoming msg rinfo) = handleIncoming e msg rinfo"
| "rtp_step e (UpdateRemote address port) = updateRemote e address port"

fun rtp_run :: "rtp_engine \<Rightarrow> rtp_call list \<Rightarrow> rtp_event list \<times> rtp_engine" where
  "rtp_run e [] = ([], e)"
| "rtp_run e (c # cs) =
     (let (ev, e1) = rtp_step e c; (evs, e2) = rtp_run e1 cs in (ev @ evs, e2))"





text \<open>
  Concrete sessions used in the evaluations below: an engine bound on port 40000 and
  started toward the peer-advertised endpoint \<open>203.0.113.5:40000\<close> with PCMU, whose
  constructor drew the timestamp \<open>2^31 - 160\<close>; and a valid RTP datagram (version 2,
  payload type 0, two payload bytes).
\<close>

definition started_engine :: rtp_engine where
  "started_engine =
     snd (start (snd (bind_rtp (RtpEngine_new 7 9 2147483488) 40000))
            (Some ''203.0.113.5'') (Some 40000) 0)"





section \<open>Strings, header values and the regular expressions of sip-ua.js\<close>

text \<open>
  JavaScript strings are modelled as \<open>string\<close>: one \<open>char\<close> per UTF-16 code unit,
  for code units below 256. The character classes are those of JavaScript regular
  expressions restricted to that range: \<open>\w\<close> is \<open>[A-Za-z0-9_]\<close>, \<open>\d\<close> is
  \<open>[0-9]\<close>, and \<open>\s\<close> is tab, line feed, vertical tab, form feed, carriage return,
  space and no-break space.
\<close>

definition CRLF :: string where
  "CRLF = [CHR 0x0D, CHR 0x0A]"

definition dquote :: char where
  "dquote = CHR 0x22"

definition char_code :: "char \<Rightarrow> nat" where
  "char_code c = of_char c"

definition is_digit :: "char \<Rightarrow> bool" where
  "is_digit c \<longleftrightarrow> 48 \<le> char_code c \<and> char_code c \<le> 57"

definition is_word :: "char \<Rightarrow> bool" where
  "is_word c \<longleftrightarrow>
     (48 \<le> char_code c \<and> char_code c \<le> 57) \<or> (65 \<le> char_code c \<and> char_code c \<le> 90)
     \<or> char_code c = 95 \<or> (97 \<le> char_code c \<and> char_code c \<le> 122)"

definition is_space :: "char \<Rightarrow> bool" where
  "is_space c \<longleftrightarrow> char_code c \<in> {9, 10, 11, 12, 13, 32, 160}"

definition is_line_terminator :: "char \<Rightarrow> bool" where
  "is_line_terminator c \<longleftrightarrow> char_code c = 10 \<or> char_code c = 13"

fun join :: "string \<Rightarrow> string list \<Rightarrow> string" where
  "join sep [] = []"
| "join sep [x] = x"
| "join sep (x # y # ys) = x @ sep @ join sep (y # ys)"

text \<open>
  \<open>toUpperCase\<close> and \<open>toLowerCase\<close> on the letters \<open>a..z\<close> and \<open>A..Z\<close>; other
  characters are kept, which is what JavaScript does on ASCII strings such as the
  transport names.
\<close>

definition upper_char :: "char \<Rightarrow> char" where
  "upper_char c = (if 97 \<le> char_code c \<and> char_code c \<le> 122 then char_of (char_code c - 32) else c)"

definition lower_char :: "char \<Rightarrow> char" where
  "lower_char c = (if 65 \<le> char_code c \<and> char_code c \<le> 90 then char_of (char_code c + 32) else c)"

definition toUpperCase :: "string \<Rightarrow> string" where
  "toUpperCase s = map upper_char s"

definition toLowerCase :: "string \<Rightarrow> string" where
  "toLowerCase s = map lower_char s"

text \<open>
  A value that is \<open>null\<close> (or, for \<open>tmpl_str\<close> above, \<open>undefined\<close>) is \<open>None\<close>;
  a template literal renders \<open>null\<close> as the text \<open>null\<close>.
\<close>

definition tmpl_null :: "string option \<Rightarrow> string" where
  "tmpl_null v = (case v of None \<Rightarrow> ''null'' | Some s \<Rightarrow> s)"

text \<open>
  \<open>msg.headers[name]\<close> as \<open>parseSipMessage\<close> builds it: \<open>undefined\<close> when the header
  is absent, a string when it occurs once, an array of strings when it occurs several
  times. A template literal renders an array by joining its entries with commas;
  \<open>a || b\<close> is \<open>a\<close> unless \<open>a\<close> is \<open>undefined\<close> or the empty string.
\<close>

datatype hval = Undefined | Str string | Arr "string list"

definition tmpl_h :: "hval \<Rightarrow> string" where
  "tmpl_h h = (case h of Undefined \<Rightarrow> ''undefined'' | Str s \<Rightarrow> s | Arr xs \<Rightarrow> join '','' xs)"

definition truthy_h :: "hval \<Rightarrow> bool" where
  "truthy_h h = (case h of Undefined \<Rightarrow> False | Str s \<Rightarrow> s \<noteq> [] | Arr xs \<Rightarrow> True)"

definition or_h :: "hval \<Rightarrow> hval \<Rightarrow> hval" where
  "or_h a b = (if truthy_h a then a else b)"

text \<open>
  A regular expression of the form \<open>/lit([class]+)/\<close>, as in \<open>/<sip:([^@>]+)/\<close> and
  \<open>/;tag=([^\s;]+)/\<close>: the leftmost position where the literal is followed by at
  least one character of the class, and there the longest run of class characters.
\<close>

fun match_lit_run :: "string \<Rightarrow> (char \<Rightarrow> bool) \<Rightarrow> string \<Rightarrow> string option" where
  "match_lit_run lit cls [] = None"
| "match_lit_run lit cls (c # cs) =
     (let run = takeWhile cls (drop (length lit) (c # cs)) in
      if take (length lit) (c # cs) = lit \<and> run \<noteq> [] then Some run
      else match_lit_run lit cls cs)"

declare match_lit_run.simps [simp del]

text \<open>
  \<open>parseInt(string)\<close> without a radix: leading white space, an optional sign, an
  optional \<open>0x\<close> prefix selecting radix 16, then the longest run of digits; \<open>NaN\<close>
  (here \<open>None\<close>) when there is no digit. The value is exact, as \<open>parseInt\<close> is for
  results below \<open>2^53\<close>.
\<close>

definition digit_value :: "char \<Rightarrow> nat" where
  "digit_value c =
     (if is_digit c then char_code c - 48
      else if 97 \<le> char_code c \<and> char_code c \<le> 102 then char_code c - 87
      else char_code c - 55)"

definition is_hex_digit :: "char \<Rightarrow> bool" where
  "is_hex_digit c \<longleftrightarrow>
     is_digit c \<or> (97 \<le> char_code c \<and> char_code c \<le> 102) \<or> (65 \<le> char_code c \<and> char_code c \<le> 70)"

definition radix_value :: "nat \<Rightarrow> string \<Rightarrow> nat" where
  "radix_value radix ds = foldl (\<lambda>acc c. radix * acc + digit_value c) 0 ds"

definition parseInt_js :: "string \<Rightarrow> int option" where
  "parseInt_js s =
     (let s1 = dropWhile is_space s;
          neg = (take 1 s1 = ''-'');
          s2 = (if take 1 s1 = ''-'' \<or> take 1 s1 = ''+'' then drop 1 s1 else s1);
          hex = (take 2 s2 = ''0x'' \<or> take 2 s2 = ''0X'');
          ds = (if hex then takeWhile is_hex_digit (drop 2 s2) else takeWhile is_digit s2);
          v = int (radix_value (if hex then 16 else 10) ds)
      in if ds = [] then None else Some (if neg then - v else v))"

section \<open>Digest authentication (sip-ua.js)\<close>

text \<open>
  One attempt of \<open>/(\w+)=(?:"([^"]+)"|([^\s,]+))/\<close> at the start of a string: the
  key, the value (\<open>m[2] || m[3]\<close>) and the length of the match. The quoted form
  needs a non-empty text and its closing quote; otherwise the value is the longest
  run without white space and commas, which may begin with a quote.
\<close>

definition auth_match_at :: "string \<Rightarrow> (string \<times> string \<times> nat) option" where
  "auth_match_at s =
     (let key = takeWhile is_word s;
          r1 = drop (length key) s;
          r2 = drop 1 r1;
          quoted = takeWhile (\<lambda>c. c \<noteq> dquote) (drop 1 r2);
          bare = takeWhile (\<lambda>c. \<not> is_space c \<and> c \<noteq> CHR '','') r2
      in
      if key = [] \<or> take 1 r1 \<noteq> ''='' then None
      else if take 1 r2 = [dquote] \<and> quoted \<noteq> []
              \<and> take 1 (drop (length quoted) (drop 1 r2)) = [dquote]
        then Some (key, quoted, length key + length quoted + 3)
      else if bare \<noteq> [] then Some (key, bare, length key + length bare + 1)
      else None)"

text \<open>
  The \<open>while ((m = re.exec(params)))\<close> loop of the global regular expression: all
  matches from left to right, each search resuming where the previous match ended.
\<close>

fun auth_scan :: "string \<Rightarrow> (string \<times> string) list" where
  "auth_scan [] = []"
| "auth_scan (c # cs) =
     (case auth_match_at (c # cs) of
        None \<Rightarrow> auth_scan cs
      | Some (k, v, n) \<Rightarrow> (k, v) # auth_scan (drop (n - 1) cs))"

text \<open>
  \<open>parseAuthHeader(header)\<close>. The result object is a map from property names to
  strings. \<open>header.match\<close> does not exist on an array or on \<open>undefined\<close>, and
  \<open>match[1]\<close> fails when \<open>/^(\w+)\s+(.*)$/\<close> does not match (no scheme word, no
  white space after it, or a line terminator in the rest): a TypeError in each case.
\<close>

type_synonym auth = "string \<rightharpoonup> string"

definition parseAuthHeader :: "hval \<Rightarrow> js_error + auth" where
  "parseAuthHeader header =
     (case header of
        Undefined \<Rightarrow> Inl TypeError
      | Arr xs \<Rightarrow> Inl TypeError
      | Str s \<Rightarrow>
          let scheme = takeWhile is_word s;
              r1 = drop (length scheme) s;
              params = dropWhile is_space r1
          in
          if scheme = [] \<or> takeWhile is_space r1 = [] \<or> list_ex is_line_terminator params
          then Inl TypeError
          else Inr (foldl (\<lambda>result (k, v). result(k \<mapsto> v)) [''scheme'' \<mapsto> scheme]
                      (auth_scan params)))"

text \<open>
  \<open>computeDigestResponse\<close> and \<open>buildAuthorizationHeader\<close>. The hash
  \<open>crypto.createHash('md5').update(s).digest('hex')\<close> is the parameter \<open>md5\<close>.
\<close>

definition computeDigestResponse ::
  "(string \<Rightarrow> string) \<Rightarrow> auth \<Rightarrow> string \<Rightarrow> string \<Rightarrow> string \<Rightarrow> string \<Rightarrow> string" where
  "computeDigestResponse md5 auth method uri username password =
     (let ha1 = md5 (username @ '':'' @ tmpl_str (auth ''realm'') @ '':'' @ password);
          ha2 = md5 (method @ '':'' @ uri);
          response = md5 (ha1 @ '':'' @ tmpl_str (auth ''nonce'') @ '':'' @ ha2)
      in response)"

definition buildAuthorizationHeader ::
  "(string \<Rightarrow> string) \<Rightarrow> auth \<Rightarrow> string \<Rightarrow> string \<Rightarrow> string \<Rightarrow> string \<Rightarrow> string" where
  "buildAuthorizationHeader md5 auth method uri username password =
     (let response = computeDigestResponse md5 auth method uri username password in
      ''Digest username='' @ [dquote] @ username @ [dquote]
      @ '', realm='' @ [dquote] @ tmpl_str (auth ''realm'') @ [dquote]
      @ '', nonce='' @ [dquote] @ tmpl_str (auth ''nonce'') @ [dquote]
      @ '', uri='' @ [dquote] @ uri @ [dquote]
      @ '', response='' @ [dquote] @ response @ [dquote]
      @ '', algorithm=MD5'')"


section \<open>SIP user agent (sip-ua.js)\<close>

text \<open>
  The configuration the constructor stores. \<open>transport\<close> is already lower-cased
  there.
\<close>

record ua_config =
  server :: string
  port :: nat
  extension :: string
  password :: string
  displayName :: string
  transport :: string

datatype call_state = Calling | Ringing | Ringing_in | Active

text \<open>
  The object in \<open>this.call\<close>. Properties that one of the two constructors of a call
  (\<open>invite\<close>, \<open>_handleIncomingInvite\<close>) does not set are \<open>undefined\<close> there and
  \<open>None\<close> here; \<open>fromTag\<close> and \<open>toTag\<close> can be \<open>null\<close>, also \<open>None\<close>.
  \<open>incomingCSeq\<close> is the result of \<open>parseInt\<close>, \<open>None\<close> for \<open>NaN\<close>.
\<close>

record call =
  callId :: hval
  fromTag :: "string option"
  toTag :: "string option"
  targetUri :: "string option"
  target :: string
  rtpEngine :: "rtp_engine option"
  rtpPort :: nat
  state :: call_state
  cseq :: nat
  branch :: "string option"
  localSdp :: "string option"
  remoteSdp :: "string option"
  call_localTag :: "string option"
  incomingVia :: hval
  incomingFrom :: hval
  incomingTo :: hval
  incomingCSeq :: "int option"
  sourceAddress :: "string option"
  sourcePort :: "nat option"

text \<open>
  The fields of \<open>SipUA\<close>. A socket or timer field is \<open>True\<close> while the socket
  exists or the timer is pending. \<open>config\<close>, \<open>localTag\<close> and \<open>registerCallId\<close> are
  set by the constructor.
\<close>

record ua =
  config :: ua_config
  udpSocket :: bool
  tcpSocket :: bool
  tcpBuffer :: "int list"
  tcpConnected :: bool
  localIp :: "string option"
  ua_localPort :: nat
  registered :: bool
  registerTimer :: bool
  localTag :: string
  registerCallId :: string
  registerCSeq :: nat
  registerRetryTimer :: bool
  registerRetryCount :: nat
  maxRegisterRetries :: nat
  registerTimeoutMs :: nat
  current_call :: "call option"

text \<open>
  \<open>new SipUA(config)\<close>, for a configuration that is already normalised; the two
  random identifiers are arguments.
\<close>

definition SipUA_new :: "ua_config \<Rightarrow> string \<Rightarrow> string \<Rightarrow> ua" where
  "SipUA_new cfg tag callid =
     \<lparr>config = (if transport cfg = ''tls'' \<and> port cfg = 5060 then cfg\<lparr>port := 5061\<rparr> else cfg),
      udpSocket = False, tcpSocket = False, tcpBuffer = [], tcpConnected = False,
      localIp = None, ua_localPort = 0, registered = False, registerTimer = False,
      localTag = tag, registerCallId = callid, registerCSeq = 0,
      registerRetryTimer = False, registerRetryCount = 0, maxRegisterRetries = 3,
      registerTimeoutMs = 5000, current_call = None\<rparr>"

definition viaTransport :: "ua \<Rightarrow> string" where
  "viaTransport s =
     (if transport (config s) = ''tls'' then ''TLS'' else toUpperCase (transport (config s)))"

definition contactTransport :: "ua \<Rightarrow> string" where
  "contactTransport s =
     (if transport (config s) = ''tls'' then ''tls'' else toLowerCase (transport (config s)))"

text \<open>
  A message as the builders assemble it: the lines that are appended with a trailing
  CRLF one after the other (the start line, the header lines and the empty line), and
  the body appended after them. \<open>wire\<close> is the string the builder returns.
\<close>

type_synonym sip_text = "string list \<times> string"

definition wire :: "sip_text \<Rightarrow> string" where
  "wire m = concat (map (\<lambda>l. l @ CRLF) (fst m)) @ snd m"

text \<open>
  What a method of the user agent does to the outside: a message given to \<open>_send\<close>
  while the transport is usable, and an exception that leaves the method uncaught.
  The \<open>log\<close>, \<open>status\<close> and \<open>callState\<close> events are not modelled.
\<close>

datatype ua_out = Sent sip_text | Thrown js_error

definition send_ua :: "ua \<Rightarrow> sip_text \<Rightarrow> ua_out list" where
  "send_ua s message =
     (if transport (config s) = ''tcp'' \<or> transport (config s) = ''tls'' then
        (if \<not> tcpSocket s \<or> \<not> tcpConnected s then [] else [Sent message])
      else
        (if \<not> udpSocket s then [] else [Sent message]))"

definition via_line :: "ua \<Rightarrow> string \<Rightarrow> string" where
  "via_line s branch' =
     ''Via: SIP/2.0/'' @ viaTransport s @ '' '' @ tmpl_null (localIp s) @ '':''
     @ show_nat (ua_localPort s) @ '';branch='' @ branch' @ '';rport''"

definition from_line :: "ua \<Rightarrow> string \<Rightarrow> string" where
  "from_line s tag =
     ''From: '' @ [dquote] @ displayName (config s) @ [dquote] @ '' <sip:''
     @ extension (config s) @ ''@'' @ server (config s) @ ''>;tag='' @ tag"

definition contact_line :: "ua \<Rightarrow> string" where
  "contact_line s =
     ''Contact: <sip:'' @ extension (config s) @ ''@'' @ tmpl_null (localIp s) @ '':''
     @ show_nat (ua_localPort s) @ '';transport='' @ contactTransport s @ ''>''"

definition allow_line :: string where
  "allow_line = ''Allow: INVITE, ACK, BYE, CANCEL, OPTIONS, INFO, NOTIFY, REFER''"

definition buildRegister :: "ua \<Rightarrow> string \<Rightarrow> nat \<Rightarrow> sip_text" where
  "buildRegister s branch' expires =
     ([''REGISTER sip:'' @ server (config s) @ '' SIP/2.0'',
       via_line s branch',
       ''Max-Forwards: 70'',
       from_line s (localTag s),
       ''To: <sip:'' @ extension (config s) @ ''@'' @ server (config s) @ ''>'',
       ''Call-ID: '' @ registerCallId s,
       ''CSeq: '' @ show_nat (registerCSeq s) @ '' REGISTER'',
       contact_line s,
       ''Expires: '' @ show_nat expires,
       allow_line,
       ''User-Agent: SIPPhone/2.0'',
       ''Content-Length: 0'',
       ''''], '''')"

text \<open>
  \<open>_buildRegisterWithAuth\<close> increments \<open>registerCSeq\<close> before it parses the
  challenge; when parsing raises, the increment stays and no message is returned.
\<close>

definition buildRegisterWithAuth ::
  "(string \<Rightarrow> string) \<Rightarrow> ua \<Rightarrow> hval \<Rightarrow> string \<Rightarrow> nat \<Rightarrow> (js_error + sip_text) \<times> ua" where
  "buildRegisterWithAuth md5 s0 authHeader branch' expires =
     (let s = s0\<lparr>registerCSeq := registerCSeq s0 + 1\<rparr> in
      case parseAuthHeader authHeader of
        Inl err \<Rightarrow> (Inl err, s)
      | Inr auth \<Rightarrow>
          let uri = ''sip:'' @ server (config s);
              authResponse = buildAuthorizationHeader md5 auth ''REGISTER'' uri
                               (extension (config s)) (password (config s))
          in (Inr ([''REGISTER sip:'' @ server (config s) @ '' SIP/2.0'',
                    via_line s branch',
                    ''Max-Forwards: 70'',
                    from_line s (localTag s),
                    ''To: <sip:'' @ extension (config s) @ ''@'' @ server (config s) @ ''>'',
                    ''Call-ID: '' @ registerCallId s,
                    ''CSeq: '' @ show_nat (registerCSeq s) @ '' REGISTER'',
                    contact_line s,
                    ''Expires: '' @ show_nat expires,
                    ''Authorization: '' @ authResponse,
                    allow_line,
                    ''User-Agent: SIPPhone/2.0'',
                    ''Content-Length: 0'',
                    ''''], ''''), s))"

text \<open>
  The builders of in-dialog requests read \<open>this.call\<close>; they are only called while
  a call exists, and take it as an argument. \<open>Buffer.byteLength(sdp)\<close> is the number
  of characters for the ASCII session descriptions that \<open>_buildSdp\<close> produces, and
  raises a TypeError when \<open>localSdp\<close> is \<open>undefined\<close>.
\<close>

definition buildInviteWithAuth ::
  "(string \<Rightarrow> string) \<Rightarrow> ua \<Rightarrow> call \<Rightarrow> hval \<Rightarrow> string \<Rightarrow> (js_error + sip_text) \<times> call" where
  "buildInviteWithAuth md5 s c0 authHeader new_branch =
     (let c = c0\<lparr>cseq := cseq c0 + 1, branch := Some new_branch\<rparr> in
      case parseAuthHeader authHeader of
        Inl err \<Rightarrow> (Inl err, c)
      | Inr auth \<Rightarrow>
          (case localSdp c of
             None \<Rightarrow> (Inl TypeError, c)
           | Some sdp \<Rightarrow>
               let authResponse =
                     buildAuthorizationHeader md5 auth ''INVITE'' (tmpl_str (targetUri c))
                       (extension (config s)) (password (config s))
               in (Inr ([''INVITE '' @ tmpl_str (targetUri c) @ '' SIP/2.0'',
                         via_line s (tmpl_str (branch c)),
                         ''Max-Forwards: 70'',
                         from_line s (tmpl_null (fromTag c)),
                         ''To: <'' @ tmpl_str (targetUri c) @ ''>'',
                         ''Call-ID: '' @ tmpl_h (callId c),
                         ''CSeq: '' @ show_nat (cseq c) @ '' INVITE'',
                         contact_line s,
                         ''Authorization: '' @ authResponse,
                         ''Content-Type: application/sdp'',
                         allow_line,
                         ''User-Agent: SIPPhone/2.0'',
                         ''Content-Length: '' @ show_nat (length sdp),
                         ''''], sdp), c)))"

definition buildAck :: "ua \<Rightarrow> call \<Rightarrow> string \<Rightarrow> string option \<Rightarrow> sip_text" where
  "buildAck s c new_branch toTag' =
     ([''ACK '' @ tmpl_str (targetUri c) @ '' SIP/2.0'',
       via_line s new_branch,
       ''Max-Forwards: 70'',
       from_line s (tmpl_null (fromTag c)),
       ''To: <'' @ tmpl_str (targetUri c) @ ''>;tag='' @ tmpl_null toTag',
       ''Call-ID: '' @ tmpl_h (callId c),
       ''CSeq: '' @ show_nat (cseq c) @ '' ACK'',
       ''Content-Length: 0'',
       ''''], '''')"

definition buildBye :: "ua \<Rightarrow> call \<Rightarrow> string \<Rightarrow> sip_text" where
  "buildBye s c new_branch =
     (let toUri = tmpl_str (targetUri c);
          toTag' = (if falsy_str (toTag c) then '''' else '';tag='' @ the (toTag c))
      in
      ([''BYE '' @ toUri @ '' SIP/2.0'',
        via_line s new_branch,
        ''Max-Forwards: 70'',
        from_line s (tmpl_null (fromTag c)),
        ''To: <'' @ toUri @ ''>'' @ toTag',
        ''Call-ID: '' @ tmpl_h (callId c),
        ''CSeq: '' @ show_nat (cseq c) @ '' BYE'',
        ''User-Agent: SIPPhone/2.0'',
        ''Content-Length: 0'',
        ''''], ''''))"

definition buildCancel :: "ua \<Rightarrow> call \<Rightarrow> sip_text" where
  "buildCancel s c =
     ([''CANCEL '' @ tmpl_str (targetUri c) @ '' SIP/2.0'',
       via_line s (tmpl_str (branch c)),
       ''Max-Forwards: 70'',
       from_line s (tmpl_null (fromTag c)),
       ''To: <'' @ tmpl_str (targetUri c) @ ''>'',
       ''Call-ID: '' @ tmpl_h (callId c),
       ''CSeq: 1 CANCEL'',
       ''Content-Length: 0'',
       ''''], '''')"

definition tmpl_num :: "int option \<Rightarrow> string" where
  "tmpl_num v = (case v of None \<Rightarrow> ''NaN'' | Some i \<Rightarrow> show_int i)"

definition build486 :: "call \<Rightarrow> string \<Rightarrow> sip_text" where
  "build486 c new_tag =
     ([''SIP/2.0 486 Busy Here'',
       ''Via: '' @ tmpl_h (incomingVia c),
       ''From: '' @ tmpl_h (incomingFrom c),
       ''To: '' @ tmpl_h (incomingTo c) @ '';tag=''
         @ (if falsy_str (call_localTag c) then new_tag else the (call_localTag c)),
       ''Call-ID: '' @ tmpl_h (callId c),
       ''CSeq: '' @ tmpl_num (incomingCSeq c) @ '' INVITE'',
       ''Content-Length: 0'',
       ''''], '''')"

definition endCall :: "ua \<Rightarrow> ua" where
  "endCall s = (case current_call s of None \<Rightarrow> s | Some c \<Rightarrow> s\<lparr>current_call := None\<rparr>)"

text \<open>
  \<open>hangup()\<close> and \<open>stop()\<close>. \<open>_endCall\<close> closes the call's RTP engine and drops the
  call object, engine included. \<open>new_branch\<close> and \<open>new_tag\<close> are what
  \<open>generateBranch()\<close> and \<open>generateTag()\<close> return if they are called.
\<close>

definition hangup :: "ua \<Rightarrow> string \<Rightarrow> string \<Rightarrow> ua_out list \<times> ua" where
  "hangup s new_branch new_tag =
     (case current_call s of
        None \<Rightarrow> ([], s)
      | Some c \<Rightarrow>
          if state c = Calling then (send_ua s (buildCancel s c), endCall s)
          else if state c = Ringing_in then (send_ua s (build486 c new_tag), endCall s)
          else
            let c1 = c\<lparr>cseq := cseq c + 1\<rparr>;
                s1 = s\<lparr>current_call := Some c1\<rparr>
            in (send_ua s1 (buildBye s1 c1 new_branch), endCall s1))"

definition stop_ua :: "ua \<Rightarrow> string \<Rightarrow> string \<Rightarrow> ua_out list \<times> ua" where
  "stop_ua s0 new_branch new_tag =
     (let s1 = s0\<lparr>registerTimer := False, registerRetryTimer := False\<rparr>;
          (out, s2) = (if current_call s1 \<noteq> None then hangup s1 new_branch new_tag else ([], s1));
          s3 = s2\<lparr>udpSocket := False\<rparr>;
          s4 = (if tcpSocket s3 then s3\<lparr>tcpSocket := False, tcpConnected := False\<rparr> else s3)
      in (out, s4\<lparr>registered := False\<rparr>))"


text \<open>
  A parsed message, as \<open>parseSipMessage\<close> hands it to the handlers: the status code
  of a response, the header table and the body.
\<close>

record sip_msg =
  statusCode :: nat
  reasonPhrase :: string
  headers :: "string \<Rightarrow> hval"
  body :: string

subsection \<open>Registration\<close>

text \<open>
  \<open>register()\<close> from \<open>await this.start()\<close> on. \<open>start()\<close> stores the address that
  \<open>getLocalIp\<close> found and creates the socket; \<open>conn\<close> is the local address and port
  of the socket once it is connected (TCP, TLS) or bound (UDP), \<open>None\<close> when that
  never happens. On TCP and TLS the connect timeout then rejects, and \<open>register()\<close>
  rejects with it; on UDP \<open>start()\<close> stays pending. In both cases nothing is sent, and
  what \<open>start()\<close> has assigned by then stays assigned.
\<close>

definition start_ua :: "ua \<Rightarrow> string \<Rightarrow> (string \<times> nat) option \<Rightarrow> ua_out list \<times> ua \<times> bool" where
  "start_ua s0 local_ip conn =
     (let s = s0\<lparr>localIp := Some local_ip\<rparr> in
      if transport (config s) = ''tls'' \<or> transport (config s) = ''tcp'' then
        let s1 = s\<lparr>tcpSocket := True, tcpBuffer := [], tcpConnected := False\<rparr> in
        (case conn of
           None \<Rightarrow> ([Thrown ConnectTimeout], s1, False)
         | Some (ip, p) \<Rightarrow>
             ([], s1\<lparr>tcpConnected := True, ua_localPort := p, localIp := Some ip\<rparr>, True))
      else
        let s1 = s\<lparr>udpSocket := True\<rparr> in
        (case conn of
           None \<Rightarrow> ([], s1, False)
         | Some (ip, p) \<Rightarrow> ([], s1\<lparr>ua_localPort := p\<rparr>, True)))"

definition register_ua ::
  "ua \<Rightarrow> string \<Rightarrow> (string \<times> nat) option \<Rightarrow> string \<Rightarrow> ua_out list \<times> ua" where
  "register_ua s0 local_ip conn new_branch =
     (case start_ua s0 local_ip conn of
        (out, s1, False) \<Rightarrow> (out, s1)
      | (out, s1, True) \<Rightarrow>
          let s2 = s1\<lparr>registerCSeq := registerCSeq s1 + 1, registerRetryCount := 0\<rparr>;
              request = buildRegister s2 new_branch 300
          in (out @ send_ua s2 request, s2\<lparr>registerRetryTimer := True\<rparr>))"

text \<open>The callback of the retry timer set by \<open>_startRegisterRetryTimer\<close>.\<close>

definition register_retry_timeout :: "ua \<Rightarrow> string \<Rightarrow> ua_out list \<times> ua" where
  "register_retry_timeout s0 new_branch =
     (if registered s0 then ([], s0)
      else
        let s1 = s0\<lparr>registerRetryCount := registerRetryCount s0 + 1\<rparr> in
        if registerRetryCount s1 > maxRegisterRetries s1 then ([], s1)
        else
          let s2 = s1\<lparr>registerCSeq := registerCSeq s1 + 1\<rparr>;
              request = buildRegister s2 new_branch 300
          in (send_ua s2 request, s2\<lparr>registerRetryTimer := True\<rparr>))"

text \<open>The callback of the refresh interval set on a 200 response.\<close>

definition register_refresh :: "ua \<Rightarrow> string \<Rightarrow> ua_out list \<times> ua" where
  "register_refresh s0 new_branch =
     (let s1 = s0\<lparr>registerCSeq := registerCSeq s0 + 1\<rparr>;
          request = buildRegister s1 new_branch 300
      in (send_ua s1 request, s1))"

definition unregister :: "ua \<Rightarrow> string \<Rightarrow> ua_out list \<times> ua" where
  "unregister s0 new_branch =
     (if \<not> udpSocket s0 \<and> \<not> tcpSocket s0 then ([], s0)
      else
        let s1 = s0\<lparr>registerCSeq := registerCSeq s0 + 1\<rparr>;
            request = buildRegister s1 new_branch 0
        in (send_ua s1 request, s1\<lparr>registerTimer := False\<rparr>))"

definition handleRegisterResponse ::
  "(string \<Rightarrow> string) \<Rightarrow> ua \<Rightarrow> sip_msg \<Rightarrow> string \<Rightarrow> ua_out list \<times> ua" where
  "handleRegisterResponse md5 s0 msg new_branch =
     (let s1 = s0\<lparr>registerRetryTimer := False\<rparr> in
      if statusCode msg = 401 \<or> statusCode msg = 407 then
        let authHeader = or_h (headers msg ''www-authenticate'') (headers msg ''proxy-authenticate'') in
        if \<not> truthy_h authHeader then ([], s1)
        else
          (case buildRegisterWithAuth md5 s1 authHeader new_branch 300 of
             (Inl err, s2) \<Rightarrow> ([Thrown err], s2)
           | (Inr authedRegister, s2) \<Rightarrow>
               (send_ua s2 authedRegister, s2\<lparr>registerRetryTimer := True\<rparr>))
      else if statusCode msg = 200 then
        ([], s1\<lparr>registered := True, registerRetryCount := 0, registerTimer := True\<rparr>)
      else ([], s1))"

text \<open>The \<open>close\<close> callback of the TCP or TLS socket.\<close>

definition tcp_closed :: "ua \<Rightarrow> ua" where
  "tcp_closed s = s\<lparr>tcpConnected := False, registered := False\<rparr>"

text \<open>
  What can happen to a user agent with respect to its registration: the calls of
  \<open>register\<close>, \<open>unregister\<close> and \<open>stop\<close>, a response to REGISTER, the two timers
  (which fire only while pending) and the loss of the connection. Each event carries
  the random strings its handler draws.
\<close>

datatype reg_event =
    Do_register string "(string \<times> nat) option" string
  | Retry_timeout string
  | Register_response sip_msg string
  | Refresh_tick string
  | Do_unregister string
  | Do_stop string string
  | Tcp_closed

fun reg_step :: "(string \<Rightarrow> string) \<Rightarrow> ua \<Rightarrow> reg_event \<Rightarrow> ua_out list \<times> ua" where
  "reg_step md5 s (Do_register local_ip conn b) = register_ua s local_ip conn b"
| "reg_step md5 s (Retry_timeout b) =
     (if registerRetryTimer s then register_retry_timeout (s\<lparr>registerRetryTimer := False\<rparr>) b
      else ([], s))"
| "reg_step md5 s (Register_response msg b) = handleRegisterResponse md5 s msg b"
| "reg_step md5 s (Refresh_tick b) = (if registerTimer s then register_refresh s b else ([], s))"
| "reg_step md5 s (Do_unregister b) = unregister s b"
| "reg_step md5 s (Do_stop b t) = stop_ua s b t"
| "reg_step md5 s Tcp_closed = ([], tcp_closed s)"

fun reg_run :: "(string \<Rightarrow> string) \<Rightarrow> ua \<Rightarrow> reg_event list \<Rightarrow> ua_out list \<times> ua" where
  "reg_run md5 s [] = ([], s)"
| "reg_run md5 s (ev # evs) =
     (let (out1, s1) = reg_step md5 s ev; (out2, s2) = reg_run md5 s1 evs in (out1 @ out2, s2))"

text \<open>
  Reading a sent message: the value of the first header line with a given name, the
  number at the start of the CSeq value, and whether the request line is a REGISTER.
\<close>

definition header_value :: "string \<Rightarrow> sip_text \<Rightarrow> string option" where
  "header_value name m =
     map_option (drop (length name + 2))
       (find (\<lambda>l. take (length name + 2) l = name @ '': '') (tl (fst m)))"

definition cseq_number :: "sip_text \<Rightarrow> nat" where
  "cseq_number m =
     (case header_value ''CSeq'' m of
        None \<Rightarrow> 0
      | Some v \<Rightarrow> radix_value 10 (takeWhile is_digit v))"

definition is_register :: "sip_text \<Rightarrow> bool" where
  "is_register m \<longleftrightarrow> take 9 (hd (fst m)) = ''REGISTER ''"

fun sent_registers :: "ua_out list \<Rightarrow> sip_text list" where
  "sent_registers [] = []"
| "sent_registers (Sent m # out) = (if is_register m then m # sent_registers out else sent_registers out)"
| "sent_registers (Thrown err # out) = sent_registers out"

text \<open>
  The identity a REGISTER of the user agent \<open>s\<close> carries: a CSeq header that is its
  number followed by the method, the Call-ID of the registration, and the From header
  with the local tag.
\<close>

definition register_headers :: "ua \<Rightarrow> sip_text \<Rightarrow> bool" where
  "register_headers s m \<longleftrightarrow>
     header_value ''CSeq'' m = Some (show_nat (cseq_number m) @ '' REGISTER'')
     \<and> header_value ''Call-ID'' m = Some (registerCallId s)
     \<and> header_value ''From'' m =
         Some ([dquote] @ displayName (config s) @ [dquote] @ '' <sip:'' @ extension (config s)
               @ ''@'' @ server (config s) @ ''>;tag='' @ localTag s)"

text \<open>
  What one registration event may do, from \<open>s\<close> to \<open>s'\<close> with the outputs
  \<open>out\<close>: keep the registration identity, not decrease \<open>registerCSeq\<close>, and send at
  most one REGISTER, which then carries the increased \<open>registerCSeq\<close>.
\<close>

definition step_ok :: "ua \<Rightarrow> ua_out list \<Rightarrow> ua \<Rightarrow> bool" where
  "step_ok s out s' \<longleftrightarrow>
     config s' = config s \<and> registerCallId s' = registerCallId s \<and> localTag s' = localTag s
     \<and> registerCSeq s \<le> registerCSeq s'
     \<and> (sent_registers out = []
        \<or> (\<exists>m. sent_registers out = [m] \<and> cseq_number m = registerCSeq s'
                \<and> registerCSeq s < registerCSeq s' \<and> register_headers s m))"

subsection \<open>Responses to INVITE\<close>

text \<open>
  \<open>_handleInviteResponse(msg)\<close>. \<open>toHeader.match\<close> raises a TypeError when the To
  header occurred several times. \<open>ack_branch\<close> and \<open>invite_branch\<close> are the results
  of the calls of \<open>generateBranch()\<close> in \<open>_buildAck\<close> and \<open>_buildInviteWithAuth\<close>.
  In the branch for 200, \<open>media\<close> is the address, port and first payload type of the
  first media section that \<open>parseSdp(msg.body)\<close> yields, \<open>None\<close> when the body is
  empty or has no media section; \<open>parseSdp\<close> itself is not modelled.
\<close>

definition handleInviteResponse ::
  "(string \<Rightarrow> string) \<Rightarrow> ua \<Rightarrow> sip_msg \<Rightarrow> (string option \<times> nat option \<times> int) option
     \<Rightarrow> string \<Rightarrow> string \<Rightarrow> ua_out list \<times> ua" where
  "handleInviteResponse md5 s msg media ack_branch invite_branch =
     (case current_call s of
        None \<Rightarrow> ([], s)
      | Some c0 \<Rightarrow>
          (case or_h (headers msg ''to'') (Str '''') of
             Undefined \<Rightarrow> ([Thrown TypeError], s)
           | Arr xs \<Rightarrow> ([Thrown TypeError], s)
           | Str toHeader \<Rightarrow>
               let c = (case match_lit_run '';tag='' (\<lambda>ch. \<not> is_space ch \<and> ch \<noteq> CHR '';'') toHeader of
                          None \<Rightarrow> c0
                        | Some t \<Rightarrow> c0\<lparr>toTag := Some t\<rparr>)
               in
               if statusCode msg = 100 then ([], s\<lparr>current_call := Some c\<rparr>)
               else if statusCode msg = 180 \<or> statusCode msg = 183 then
                 ([], s\<lparr>current_call := Some (c\<lparr>state := Ringing\<rparr>)\<rparr>)
               else if statusCode msg = 401 \<or> statusCode msg = 407 then
                 let authHeader = or_h (headers msg ''www-authenticate'')
                                       (headers msg ''proxy-authenticate'')
                 in
                 if truthy_h authHeader then
                   let ack = buildAck s c ack_branch
                               (Some (if falsy_str (toTag c) then '''' else the (toTag c)));
                       out1 = send_ua s ack
                   in
                   (case buildInviteWithAuth md5 s c authHeader invite_branch of
                      (Inl err, c1) \<Rightarrow> (out1 @ [Thrown err], s\<lparr>current_call := Some c1\<rparr>)
                    | (Inr authedInvite, c1) \<Rightarrow>
                        (out1 @ send_ua s authedInvite, s\<lparr>current_call := Some c1\<rparr>))
                 else ([], s\<lparr>current_call := Some c\<rparr>)
               else if statusCode msg = 200 then
                 let c1 = c\<lparr>state := Active, remoteSdp := Some (body msg)\<rparr>;
                     out1 = send_ua s (buildAck s c1 ack_branch (toTag c1))
                 in
                 (case media of
                    None \<Rightarrow> (out1, s\<lparr>current_call := Some c1\<rparr>)
                  | Some (remoteIp, remotePort', pt) \<Rightarrow>
                      (case rtpEngine c1 of
                         None \<Rightarrow> (out1 @ [Thrown TypeError], s\<lparr>current_call := Some c1\<rparr>)
                       | Some e \<Rightarrow>
                           (out1, s\<lparr>current_call :=
                                     Some (c1\<lparr>rtpEngine := Some (snd (start e remoteIp remotePort' pt))\<rparr>)\<rparr>)))
               else if statusCode msg \<ge> 400 then
                 let out1 = send_ua s (buildAck s c ack_branch
                                         (Some (if falsy_str (toTag c) then '''' else the (toTag c))))
                 in (out1, endCall (s\<lparr>current_call := Some c\<rparr>))
               else ([], s\<lparr>current_call := Some c\<rparr>)))"

subsection \<open>Incoming INVITE\<close>

text \<open>
  \<open>_handleIncomingInvite(msg, rinfo)\<close>. \<open>fromHeader.match\<close> raises a TypeError when
  the From header occurred several times. \<open>new_tag\<close> is the result of the one call
  of \<open>generateTag()\<close> that either branch makes.
\<close>

definition handleIncomingInvite ::
  "ua \<Rightarrow> sip_msg \<Rightarrow> string \<times> nat \<Rightarrow> string \<Rightarrow> ua_out list \<times> ua" where
  "handleIncomingInvite s msg rinfo new_tag =
     (case or_h (headers msg ''from'') (Str '''') of
        Undefined \<Rightarrow> ([Thrown TypeError], s)
      | Arr xs \<Rightarrow> ([Thrown TypeError], s)
      | Str fromHeader \<Rightarrow>
          let callerId = (case match_lit_run ''<sip:'' (\<lambda>ch. ch \<noteq> CHR ''@'' \<and> ch \<noteq> CHR ''>'') fromHeader of
                            None \<Rightarrow> ''Unknown''
                          | Some u \<Rightarrow> u);
              callId' = headers msg ''call-id'';
              cseq' = headers msg ''cseq'';
              cseqNum = parseInt_js (tmpl_h cseq')
          in
          if (case current_call s of None \<Rightarrow> False | Some c \<Rightarrow> state c = Active) then
            let busy = ([''SIP/2.0 486 Busy Here'',
                         ''Via: '' @ tmpl_h (headers msg ''via''),
                         ''From: '' @ fromHeader,
                         ''To: '' @ tmpl_h (headers msg ''to'') @ '';tag='' @ new_tag,
                         ''Call-ID: '' @ tmpl_h callId',
                         ''CSeq: '' @ tmpl_h cseq',
                         ''Content-Length: 0'',
                         ''''], '''')
            in (send_ua s busy, s)
          else
            let trying = ([''SIP/2.0 100 Trying'',
                           ''Via: '' @ tmpl_h (headers msg ''via''),
                           ''From: '' @ fromHeader,
                           ''To: '' @ tmpl_h (headers msg ''to''),
                           ''Call-ID: '' @ tmpl_h callId',
                           ''CSeq: '' @ tmpl_h cseq',
                           ''Content-Length: 0'',
                           ''''], '''');
                ringing = ([''SIP/2.0 180 Ringing'',
                            ''Via: '' @ tmpl_h (headers msg ''via''),
                            ''From: '' @ fromHeader,
                            ''To: '' @ tmpl_h (headers msg ''to'') @ '';tag='' @ new_tag,
                            ''Call-ID: '' @ tmpl_h callId',
                            ''CSeq: '' @ tmpl_h cseq',
                            contact_line s,
                            ''Content-Length: 0'',
                            ''''], '''')
            in
            (send_ua s trying @ send_ua s ringing,
             s\<lparr>current_call := Some
                 \<lparr>callId = callId', fromTag = None, toTag = None, targetUri = None,
                  target = callerId, rtpEngine = None, rtpPort = 0, state = Ringing_in,
                  cseq = 1, branch = None, localSdp = None, remoteSdp = Some (body msg),
                  call_localTag = Some new_tag, incomingVia = headers msg ''via'',
                  incomingFrom = Str fromHeader, incomingTo = headers msg ''to'',
                  incomingCSeq = cseqNum, sourceAddress = Some (fst rinfo),
                  sourcePort = Some (snd rinfo)\<rparr>\<rparr>))"

text \<open>The condition under which \<open>_send\<close> writes a message to the transport.\<close>

definition transport_usable :: "ua \<Rightarrow> bool" where
  "transport_usable s \<longleftrightarrow>
     (if transport (config s) = ''tcp'' \<or> transport (config s) = ''tls''
      then tcpSocket s \<and> tcpConnected s else udpSocket s)"


subsection \<open>Concrete inputs used in the evaluations below\<close>

text \<open>
  The challenge \<open>Digest realm="asterisk", nonce="abc123"\<close>; a user agent on UDP
  that is registered and has an outbound call in progress; the same agent with the
  call active; a 401 response to the INVITE; and an incoming INVITE.
\<close>

definition challenge :: string where
  "challenge = ''Digest realm='' @ [dquote] @ ''asterisk'' @ [dquote]
               @ '', nonce='' @ [dquote] @ ''abc123'' @ [dquote]"

definition challenge_auth :: auth where
  "challenge_auth = (case parseAuthHeader (Str challenge) of Inl err \<Rightarrow> Map.empty | Inr a \<Rightarrow> a)"

definition example_config :: ua_config where
  "example_config =
     \<lparr>server = ''pbx'', port = 5060, extension = ''u'', password = ''p'',
      displayName = ''SIP Phone'', transport = ''udp''\<rparr>"

definition example_call :: call where
  "example_call =
     \<lparr>callId = Str ''c0ffee'', fromTag = Some ''a1b2'', toTag = None,
      targetUri = Some ''sip:bob@pbx'', target = ''bob'',
      rtpEngine = Some (snd (bind_rtp (RtpEngine_new 7 9 1000) 40000)), rtpPort = 40000,
      state = Calling, cseq = 1, branch = Some ''z9hG4bK0000000000000001'',
      localSdp = Some ''v=0'', remoteSdp = None, call_localTag = None,
      incomingVia = Undefined, incomingFrom = Undefined, incomingTo = Undefined,
      incomingCSeq = None, sourceAddress = None, sourcePort = None\<rparr>"

definition example_ua :: ua where
  "example_ua =
     (SipUA_new example_config ''f00d'' ''cafe'')
       \<lparr>udpSocket := True, localIp := Some ''192.0.2.1'', ua_localPort := 5070,
        registered := True, registerCSeq := 2, current_call := Some example_call\<rparr>"

definition busy_ua :: ua where
  "busy_ua = example_ua\<lparr>current_call := Some (example_call\<lparr>state := Active\<rparr>)\<rparr>"

definition response_401 :: sip_msg where
  "response_401 =
     \<lparr>statusCode = 401, reasonPhrase = ''Unauthorized'',
      headers = (\<lambda>n. if n = ''to'' then Str ''<sip:bob@pbx>;tag=9f8e''
                     else if n = ''www-authenticate'' then Str challenge
                     else if n = ''cseq'' then Str ''1 INVITE''
                     else Undefined),
      body = ''''\<rparr>"

definition second_invite :: sip_msg where
  "second_invite =
     \<lparr>statusCode = 0, reasonPhrase = '''',
      headers = (\<lambda>n. if n = ''via'' then Str ''SIP/2.0/UDP 198.51.100.7:5060;branch=z9hG4bKbeef''
                     else if n = ''from'' then Str ''<sip:carol@pbx>;tag=77''
                     else if n = ''to'' then Str ''<sip:u@pbx>''
                     else if n = ''call-id'' then Str ''d00d''
                     else if n = ''cseq'' then Str ''314 INVITE''
                     else Undefined),
      body = ''v=0''\<rparr>"

text \<open>
  A registration from start to end: \<open>register()\<close>, a 401 challenge, a retry
  timeout, the 200, one refresh, and \<open>unregister()\<close>.
\<close>

definition fresh_ua :: ua where
  "fresh_ua = SipUA_new example_config ''f00d'' ''cafe''"

definition response_401_register :: sip_msg where
  "response_401_register =
     \<lparr>statusCode = 401, reasonPhrase = ''Unauthorized'',
      headers = (\<lambda>n. if n = ''www-authenticate'' then Str challenge
                     else if n = ''cseq'' then Str ''1 REGISTER''
                     else Undefined),
      body = ''''\<rparr>"

definition response_200_register :: sip_msg where
  "response_200_register =
     \<lparr>statusCode = 200, reasonPhrase = ''OK'',
      headers = (\<lambda>n. if n = ''cseq'' then Str ''3 REGISTER'' else Undefined),
      body = ''''\<rparr>"

definition registration_events :: "reg_event list" where
  "registration_events =
     [Do_register ''192.0.2.1'' (Some (''192.0.2.1'', 5070)) ''z9hG4bK01'',
      Register_response response_401_register ''z9hG4bK02'',
      Retry_timeout ''z9hG4bK03'',
      Register_response response_200_register ''z9hG4bK04'',
      Refresh_tick ''z9hG4bK05'',
      Do_unregister ''z9hG4bK06'']"

text \<open>An incoming INVITE in which the From header line occurs twice.\<close>

definition repeated_from_invite :: sip_msg where
  "repeated_from_invite =
     second_invite\<lparr>headers := (\<lambda>n. if n = ''from''
                                      then Arr [''<sip:carol@pbx>;tag=77'', ''<sip:carol@pbx>;tag=77'']
                                      else headers second_invite n)\<rparr>"


section \<open>TCP and TLS framing (sip-ua.js)\<close>

text \<open>
  \<open>buf.toString('utf8')\<close> of Node's Buffer API: the UTF-16 code units of the decoded
  text, here integers. A byte sequence that is not well-formed UTF-8 yields the
  replacement character \<open>U+FFFD\<close> for each maximal ill-formed part, after which
  decoding resumes at the offending byte; a code point above \<open>U+FFFF\<close> yields a
  surrogate pair.
\<close>

definition is_cont :: "int \<Rightarrow> bool" where
  "is_cont b \<longleftrightarrow> 0x80 \<le> b \<and> b \<le> 0xBF"

definition second_ok :: "int \<Rightarrow> int \<Rightarrow> bool" where
  "second_ok b c \<longleftrightarrow>
     (if b = 0xE0 then 0xA0 \<le> c \<and> c \<le> 0xBF
      else if b = 0xED then 0x80 \<le> c \<and> c \<le> 0x9F
      else if b = 0xF0 then 0x90 \<le> c \<and> c \<le> 0xBF
      else if b = 0xF4 then 0x80 \<le> c \<and> c \<le> 0x8F
      else is_cont c)"

definition surrogates :: "int \<Rightarrow> int list" where
  "surrogates cp = [0xD800 + (cp - 0x10000) div 0x400, 0xDC00 + (cp - 0x10000) mod 0x400]"

fun utf8_decode :: "int list \<Rightarrow> int list" where
  "utf8_decode [] = []"
| "utf8_decode (b # bs) =
     (if b < 0x80 then b # utf8_decode bs
      else if 0xC2 \<le> b \<and> b \<le> 0xDF then
        (case bs of
           [] \<Rightarrow> [0xFFFD]
         | c1 # r1 \<Rightarrow>
             if is_cont c1 then ((b mod 0x20) * 0x40 + c1 mod 0x40) # utf8_decode r1
             else 0xFFFD # utf8_decode bs)
      else if 0xE0 \<le> b \<and> b \<le> 0xEF then
        (case bs of
           [] \<Rightarrow> [0xFFFD]
         | c1 # r1 \<Rightarrow>
             if \<not> second_ok b c1 then 0xFFFD # utf8_decode bs
             else
               (case r1 of
                  [] \<Rightarrow> [0xFFFD]
                | c2 # r2 \<Rightarrow>
                    if is_cont c2
                    then ((b mod 0x10) * 0x1000 + (c1 mod 0x40) * 0x40 + c2 mod 0x40) # utf8_decode r2
                    else 0xFFFD # utf8_decode r1))
      else if 0xF0 \<le> b \<and> b \<le> 0xF4 then
        (case bs of
           [] \<Rightarrow> [0xFFFD]
         | c1 # r1 \<Rightarrow>
             if \<not> second_ok b c1 then 0xFFFD # utf8_decode bs
             else
               (case r1 of
                  [] \<Rightarrow> [0xFFFD]
                | c2 # r2 \<Rightarrow>
                    if \<not> is_cont c2 then 0xFFFD # utf8_decode r1
                    else
                      (case r2 of
                         [] \<Rightarrow> [0xFFFD]
                       | c3 # r3 \<Rightarrow>
                           if is_cont c3
                           then surrogates ((b mod 0x08) * 0x40000 + (c1 mod 0x40) * 0x1000
                                            + (c2 mod 0x40) * 0x40 + c3 mod 0x40)
                                @ utf8_decode r3
                           else 0xFFFD # utf8_decode r2)))
      else 0xFFFD # utf8_decode bs)"

text \<open>
  \<open>Buffer.byteLength(str, 'utf8')\<close>: the number of bytes of the UTF-8 encoding of a
  string given by its code units; a surrogate pair takes four bytes, a lone surrogate
  is encoded as \<open>U+FFFD\<close> in three.
\<close>

fun utf8_byteLength :: "int list \<Rightarrow> nat" where
  "utf8_byteLength [] = 0"
| "utf8_byteLength (c # cs) =
     (if c < 0x80 then 1 + utf8_byteLength cs
      else if c < 0x800 then 2 + utf8_byteLength cs
      else if 0xD800 \<le> c \<and> c \<le> 0xDBFF then
        (case cs of
           [] \<Rightarrow> 3
         | d # ds \<Rightarrow>
             if 0xDC00 \<le> d \<and> d \<le> 0xDFFF then 4 + utf8_byteLength ds
             else 3 + utf8_byteLength cs)
      else 3 + utf8_byteLength cs)"

text \<open>The code units of a string literal of the source.\<close>

definition units :: "string \<Rightarrow> int list" where
  "units s = map (\<lambda>c. int (char_code c)) s"

text \<open>\<open>str.indexOf(pat)\<close>, \<open>None\<close> for \<open>-1\<close>.\<close>

fun indexOf :: "int list \<Rightarrow> int list \<Rightarrow> nat option" where
  "indexOf [] pat = (if pat = [] then Some 0 else None)"
| "indexOf (c # cs) pat =
     (if take (length pat) (c # cs) = pat then Some 0
      else map_option Suc (indexOf cs pat))"

text \<open>
  \<open>headerSection.match(/Content-Length:\s*(\d+)/i)\<close>: the digits captured at the
  leftmost position where the literal, compared without regard to the case of ASCII
  letters, is followed by optional white space and at least one digit. White space is
  the set of \<open>\s\<close> over all code units.
\<close>

definition lower_unit :: "int \<Rightarrow> int" where
  "lower_unit c = (if 65 \<le> c \<and> c \<le> 90 then c + 32 else c)"

definition is_space_unit :: "int \<Rightarrow> bool" where
  "is_space_unit c \<longleftrightarrow>
     c \<in> {9, 10, 11, 12, 13, 32, 160, 0x1680, 0x2028, 0x2029, 0x202F, 0x205F, 0x3000, 0xFEFF}
     \<or> (0x2000 \<le> c \<and> c \<le> 0x200A)"

definition is_digit_unit :: "int \<Rightarrow> bool" where
  "is_digit_unit c \<longleftrightarrow> 48 \<le> c \<and> c \<le> 57"

fun content_length_match :: "int list \<Rightarrow> int list option" where
  "content_length_match [] = None"
| "content_length_match (c # cs) =
     (let digits = takeWhile is_digit_unit (dropWhile is_space_unit (drop 15 (c # cs))) in
      if map lower_unit (take 15 (c # cs)) = units ''content-length:'' \<and> digits \<noteq> []
      then Some digits
      else content_length_match cs)"

text \<open>\<open>parseInt\<close> of a run of decimal digits.\<close>

definition digits_value :: "int list \<Rightarrow> nat" where
  "digits_value ds = foldl (\<lambda>acc d. 10 * acc + nat (d - 48)) 0 ds"

text \<open>
  The loop of \<open>_handleTcpData\<close> on the accumulated buffer: the frames handed to
  \<open>_handleMessage\<close>, in order, and the buffer that is left. The model follows the
  loop for handlers that return normally.
\<close>

function tcp_frames :: "int list \<Rightarrow> int list list \<times> int list" where
  "tcp_frames tcpBuffer' =
     (if length tcpBuffer' > 0 then
        let str = utf8_decode tcpBuffer' in
        case indexOf str (units (CRLF @ CRLF)) of
          None \<Rightarrow> ([], tcpBuffer')
        | Some headerEnd \<Rightarrow>
            let headerSection = take headerEnd str;
                contentLength = (case content_length_match headerSection of
                                   None \<Rightarrow> 0
                                 | Some ds \<Rightarrow> digits_value ds);
                totalLength = headerEnd + 4 + contentLength;
                totalBytes = utf8_byteLength (take totalLength str)
            in
            if length tcpBuffer' < totalBytes then ([], tcpBuffer')
            else
              let msgBuf = take totalBytes tcpBuffer';
                  (frames, rest) = tcp_frames (drop totalBytes tcpBuffer')
              in (msgBuf # frames, rest)
      else ([], tcpBuffer'))"
  by pat_completeness auto

lemma indexOf_bound: "indexOf s pat = Some i \<Longrightarrow> i + length pat \<le> length s"
proof (induction s arbitrary: i)
  case Nil
  then show ?case by (simp split: if_splits)
next
  case (Cons c cs)
  show ?case
  proof (cases "take (length pat) (c # cs) = pat")
    case True
    then have "length (take (length pat) (c # cs)) = length pat"
      by simp
    then have "length pat \<le> length (c # cs)"
      by (simp only: length_take)
    with True Cons.prems show ?thesis by simp
  next
    case False
    with Cons.prems obtain j where "indexOf cs pat = Some j" "i = Suc j"
      by auto
    with Cons.IH show ?thesis by simp
  qed
qed

lemma utf8_byteLength_pos: "s \<noteq> [] \<Longrightarrow> 0 < utf8_byteLength s"
  by (cases s) (auto split: list.splits)

termination tcp_frames
proof (relation "measure length")
  show "wf (measure length)" by simp
next
  fix tcpBuffer' :: "int list" and str headerEnd headerSection contentLength totalLength totalBytes msgBuf
  assume found: "indexOf str (units (CRLF @ CRLF)) = Some headerEnd"
    and tl: "totalLength = headerEnd + 4 + contentLength"
    and tb: "totalBytes = utf8_byteLength (take totalLength str)"
    and fits: "\<not> length tcpBuffer' < totalBytes"
  from indexOf_bound [OF found] have "str \<noteq> []"
    by (auto simp add: units_def CRLF_def)
  with tl have "take totalLength str \<noteq> []"
    by simp
  with tb have "0 < totalBytes"
    by (simp add: utf8_byteLength_pos)
  with fits show "(drop totalBytes tcpBuffer', tcpBuffer') \<in> measure length"
    by simp
qed

declare tcp_frames.simps [simp del]

definition handleTcpData :: "ua \<Rightarrow> int list \<Rightarrow> int list list \<times> ua" where
  "handleTcpData s data =
     (let (frames, rest) = tcp_frames (tcpBuffer s @ data) in (frames, s\<lparr>tcpBuffer := rest\<rparr>))"

text \<open>
  Two framed messages: a 200 response whose two-byte body is the letter
  \<open>U+00E9\<close> in UTF-8, and a 180 response without a body.
\<close>

definition bytes_of :: "string \<Rightarrow> int list" where
  "bytes_of s = map (\<lambda>c. int (char_code c)) s"

definition framed_1 :: "int list" where
  "framed_1 = bytes_of (''SIP/2.0 200 OK'' @ CRLF @ ''Content-Length: 2'' @ CRLF @ CRLF) @ [0xC3, 0xA9]"

definition framed_2 :: "int list" where
  "framed_2 = bytes_of (''SIP/2.0 180 Ringing'' @ CRLF @ ''Content-Length: 0'' @ CRLF @ CRLF)"


section \<open>Bitwise operators on small operands\<close>

lemma toInt32_id: "- 2147483648 \<le> x \<Longrightarrow> x < 2147483648 \<Longrightarrow> toInt32 x = x"
  unfolding toInt32_def by (rule signed_take_bit_int_eq_self) simp_all

lemma and_255: "(a::int) AND 255 = a mod 256"
proof -
  have "a AND mask 8 = a mod 2 ^ 8"
    by (simp only: take_bit_eq_mask [symmetric] take_bit_eq_mod)
  then show ?thesis by (simp add: mask_eq_exp_minus_1)
qed

lemma and_15: "(a::int) AND 15 = a mod 16"
proof -
  have "a AND mask 4 = a mod 2 ^ 4"
    by (simp only: take_bit_eq_mask [symmetric] take_bit_eq_mod)
  then show ?thesis by (simp add: mask_eq_exp_minus_1)
qed

lemma js_and_255:
  "- 2147483648 \<le> a \<Longrightarrow> a < 2147483648 \<Longrightarrow> js_and a 255 = a mod 256"
  by (simp add: js_and_def toInt32_id and_255)

lemma js_and_255_range: "0 \<le> js_and a 255 \<and> js_and a 255 \<le> 255"
  by (simp add: js_and_def toInt32_id)

lemma js_and_15:
  "- 2147483648 \<le> a \<Longrightarrow> a < 2147483648 \<Longrightarrow> js_and a 15 = a mod 16"
  by (simp add: js_and_def toInt32_id and_15)

lemma js_shr_div:
  "- 2147483648 \<le> a \<Longrightarrow> a < 2147483648 \<Longrightarrow> 0 \<le> n \<Longrightarrow> n < 32
   \<Longrightarrow> js_shr a n = a div 2 ^ nat n"
  by (simp add: js_shr_def toInt32_id drop_bit_eq_div)

lemma sign_bit_table: "list_all sign_bit_ok [-128..127]"
  by code_simp

lemma js_and_128:
  assumes "- 128 \<le> a" "a \<le> 127"
  shows "js_and a 0x80 = (if a < 0 then 0x80 else 0)"
proof -
  from sign_bit_table have "\<forall>x\<in>set [-128..127]. sign_bit_ok x"
    by (simp only: list_all_iff)
  then have "\<forall>x\<in>{-128..127}. sign_bit_ok x"
    by (simp only: set_upto)
  with assms have "sign_bit_ok a" by simp
  then show ?thesis by (simp only: sign_bit_ok_def)
qed

section \<open>The \<open>\<mu>\<close>-law encoder\<close>

lemma mulaw_pack_table:
  "list_all (\<lambda>s. list_all (\<lambda>e. list_all (mulaw_pack_ok s e) [0..15]) [0..7]) [0, 128]"
  by code_simp

lemma mulaw_pack_eq:
  assumes "s = 0 \<or> s = 128" "0 \<le> e" "e \<le> 7" "0 \<le> m" "m \<le> 15"
  shows "mulaw_pack s e m = 255 - s - 16 * e - m"
proof -
  from mulaw_pack_table
  have "\<forall>s\<in>set [0, 128]. \<forall>e\<in>set [0..7]. \<forall>m\<in>set [0..15]. mulaw_pack_ok s e m"
    by (simp only: list_all_iff)
  then have "\<forall>s\<in>{0, 128}. \<forall>e\<in>{0..7}. \<forall>m\<in>{0..15}. mulaw_pack_ok s e m"
    by (simp only: set_upto list.set)
  with assms have "mulaw_pack_ok s e m" by auto
  then show ?thesis by (simp only: mulaw_pack_ok_def)
qed

lemma table_length: "length mulawEncodeTable = 256"
  by (simp add: mulawEncodeTable_def)

lemma table_range:
  assumes "i < 256"
  shows "0 \<le> mulawEncodeTable ! i \<and> mulawEncodeTable ! i \<le> 7"
proof -
  from assms have "mulawEncodeTable ! i \<in> set mulawEncodeTable"
    by (simp add: table_length)
  moreover have "\<forall>v \<in> set mulawEncodeTable. 0 \<le> v \<and> v \<le> 7"
    by (simp add: mulawEncodeTable_def)
  ultimately show ?thesis by blast
qed

lemma table_zero:
  assumes i: "i < 256" and z: "mulawEncodeTable ! i = 0"
  shows "i < 2"
proof (rule ccontr)
  assume "\<not> i < 2"
  then have i2: "2 + (i - 2) = i" by simp
  have "drop 2 mulawEncodeTable ! (i - 2) = mulawEncodeTable ! (2 + (i - 2))"
    by (rule nth_drop) (simp add: table_length)
  then have "drop 2 mulawEncodeTable ! (i - 2) = mulawEncodeTable ! i"
    by (simp only: i2)
  moreover have "drop 2 mulawEncodeTable ! (i - 2) \<in> set (drop 2 mulawEncodeTable)"
    using i \<open>\<not> i < 2\<close> by (intro nth_mem) (simp add: table_length)
  moreover have "0 \<notin> set (drop 2 mulawEncodeTable)"
    by (simp add: mulawEncodeTable_def)
  ultimately show False using z by simp
qed

text \<open>
  Among the 16-bit samples only \<open>-1\<close>, \<open>-2\<close> and \<open>-3\<close> are encoded as \<open>0x7F\<close>, the
  code of negative zero: it needs the sign bit set, exponent 0 and mantissa 0.
\<close>

lemma pcmToMulaw_127:
  assumes lo: "- 32768 \<le> x" and hi: "x \<le> 32767" and enc: "pcmToMulaw x = 127"
  shows "x \<in> {-3, -2, -1}"
proof -
  define sgn where "sgn = js_and (js_shr x 8) 0x80"
  define a where "a = (if sgn \<noteq> 0 then - x else x)"
  define s where "s = (if a > MULAW_CLIP then MULAW_CLIP else a) + MULAW_BIAS"
  define idx where "idx = js_and (js_shr s 7) 0xFF"
  define e where "e = mulawEncodeTable ! nat idx"
  define m where "m = js_and (js_shr s (e + 3)) 0x0F"
  have enc_eq: "pcmToMulaw x = mulaw_pack sgn e m"
    by (simp add: pcmToMulaw_def mulaw_pack_def Let_def sgn_def a_def s_def idx_def e_def m_def)
  have shr8: "js_shr x 8 = x div 256"
    using lo hi by (simp add: js_shr_div)
  have sgn: "sgn = (if x < 0 then 128 else 0)"
    unfolding sgn_def shr8 using lo hi by (subst js_and_128) auto
  have a: "0 \<le> a" "a \<le> 32768" "a = \<bar>x\<bar>"
    using lo hi by (auto simp add: a_def sgn)
  have s: "132 \<le> s" "s \<le> 32767" "s = min a 32635 + 132"
    using a by (auto simp add: s_def MULAW_CLIP_def MULAW_BIAS_def)
  have idx: "idx = s div 128" "0 \<le> idx" "idx < 256"
    using s by (auto simp add: idx_def js_shr_div js_and_255)
  have e: "0 \<le> e" "e \<le> 7"
    using idx table_range [of "nat idx"] by (auto simp add: e_def)
  have m: "0 \<le> m" "m \<le> 15"
    by (simp_all add: m_def js_and_def toInt32_id)
  have sgn_cases: "sgn = 0 \<or> sgn = 128"
    by (simp add: sgn)
  then have "mulaw_pack sgn e m = 255 - sgn - 16 * e - m"
    using e m by (rule mulaw_pack_eq)
  with enc enc_eq have sum: "sgn + 16 * e + m = 128"
    by simp
  with sgn_cases e m have "sgn = 128 \<and> e = 0 \<and> m = 0"
    by arith
  then have vals: "sgn = 128" "e = 0" "m = 0"
    by simp_all
  from vals(1) have neg: "x < 0"
    by (simp add: sgn split: if_splits)
  have "nat idx < 2"
    using idx vals(2) by (intro table_zero) (simp_all add: e_def)
  with idx have s_small: "s < 256"
    by simp
  have "js_shr s 3 = s div 8"
    using s by (simp add: js_shr_div)
  moreover have "0 \<le> s div 8" "s div 8 < 32"
    using s s_small by simp_all
  ultimately have "m = (s div 8) mod 16"
    using vals(2) by (simp add: m_def js_and_15)
  with vals(3) s(1) s_small have "s < 136"
    by presburger
  with s(3) have "a < 4"
    by simp
  with a(3) neg show ?thesis
    by auto
qed

lemma pcmToMulaw_range: "0 \<le> pcmToMulaw x \<and> pcmToMulaw x \<le> 255"
  unfolding pcmToMulaw_def Let_def by (rule js_and_255_range)

lemma mulaw_byte_table: "list_all mulaw_byte_fixed [0..255]"
  by code_simp

lemma mulaw_byte_reencode:
  assumes "0 \<le> b" "b \<le> 255" "b \<noteq> 0x7F"
  shows "pcmToMulaw (mulawToPcm b) = b"
proof -
  from mulaw_byte_table have "\<forall>x\<in>set [0..255]. mulaw_byte_fixed x"
    by (simp only: list_all_iff)
  then have "\<forall>x\<in>{0..255}. mulaw_byte_fixed x"
    by (simp only: set_upto)
  with assms have "mulaw_byte_fixed b" by simp
  with assms(3) show ?thesis by (simp only: mulaw_byte_fixed_def) simp
qed

lemma int16View_zeros: "int16View (replicate (2 * n) 0) = replicate n 0"
  by (induction n) simp_all

section \<open>Claims about the codec\<close>

text \<open>
  C1 (silence bytes). Evaluated on the code: the \<open>\<mu>\<close>-law encoder maps the sample 0
  to \<open>0xFF\<close>, as claimed, but the A-law encoder maps it to \<open>0x55\<close>, not to the
  \<open>0xD5\<close> that the claim states and that \<open>_sendPacket\<close> uses as the A-law silence
  byte. Accordingly an all-zero PCM16 buffer of \<open>n\<close> samples encodes to \<open>n\<close> bytes
  \<open>0xFF\<close> under \<open>\<mu>\<close>-law and to \<open>n\<close> bytes \<open>0x55\<close> under A-law.
\<close>

theorem silence_encoding:
  "pcmToMulaw 0 = 0xFF \<and> pcmToAlaw 0 = 0x55 \<and> pcmToAlaw 0 \<noteq> 0xD5
   \<and> encodeMulaw (replicate (2 * n) 0) = replicate n 0xFF
   \<and> encodeAlaw (replicate (2 * n) 0) = replicate n 0x55"
proof -
  have mu: "pcmToMulaw 0 = 0xFF" by code_simp
  have al: "pcmToAlaw 0 = 0x55" by code_simp
  have "encodeMulaw (replicate (2 * n) 0) = replicate n 0xFF"
    by (simp add: encodeMulaw_def int16View_zeros mu uint8_store_def)
  moreover have "encodeAlaw (replicate (2 * n) 0) = replicate n 0x55"
    by (simp add: encodeAlaw_def int16View_zeros al uint8_store_def)
  ultimately show ?thesis using mu al by simp
qed

text \<open>
  C5 (re-encoding is a fixed point), as amended. For every 16-bit signed PCM sample
  \<open>x\<close> other than \<open>-1\<close>, \<open>-2\<close> and \<open>-3\<close>, encoding the decoded \<open>\<mu>\<close>-law code of
  \<open>x\<close> gives that code again.
\<close>

theorem mulaw_reencode_fixed_point:
  assumes "- 32768 \<le> x" and "x \<le> 32767" and "x \<notin> {-3, -2, -1}"
  shows "pcmToMulaw (mulawToPcm (pcmToMulaw x)) = pcmToMulaw x"
proof -
  have "pcmToMulaw x \<noteq> 0x7F"
    using assms pcmToMulaw_127 [of x] by auto
  moreover have "0 \<le> pcmToMulaw x" "pcmToMulaw x \<le> 255"
    using pcmToMulaw_range [of x] by simp_all
  ultimately show ?thesis
    by (intro mulaw_byte_reencode)
qed

theorem mulaw_reencode_fixed_point_witness:
  "- 32768 \<le> (1000::int) \<and> (1000::int) \<le> 32767 \<and> (1000::int) \<notin> {-3, -2, -1}
   \<and> pcmToMulaw (mulawToPcm (pcmToMulaw 1000)) = pcmToMulaw 1000"
  using mulaw_reencode_fixed_point [of 1000] by simp

text \<open>
  The claim as stated fails: the sample \<open>-1\<close> is encoded as \<open>0x7F\<close>, which decodes to
  0, and 0 is encoded as \<open>0xFF\<close>; and under A-law the sample 256 is encoded as
  \<open>0x17\<close>, which decodes to 2368, and 2368 is encoded as \<open>0x27\<close>.
\<close>

theorem reencode_fixed_point_counterexample:
  "pcmToMulaw (mulawToPcm (pcmToMulaw (- 1))) \<noteq> pcmToMulaw (- 1)
   \<and> pcmToAlaw (alawToPcm (pcmToAlaw 256)) \<noteq> pcmToAlaw 256"
proof -
  have "pcmToMulaw (- 1) = 0x7F" by code_simp
  moreover have "mulawToPcm 0x7F = 0" by code_simp
  moreover have "pcmToMulaw 0 = 0xFF" by code_simp
  moreover have "pcmToAlaw 256 = 0x17" by code_simp
  moreover have "alawToPcm 0x17 = 2368" by code_simp
  moreover have "pcmToAlaw 2368 = 0x27" by code_simp
  ultimately show ?thesis by simp
qed


section \<open>Claims about the RTP engine\<close>

lemma sendPacket_frame:
  "ssrc (snd (sendPacket e)) = ssrc e
   \<and> muted (snd (sendPacket e)) = muted e
   \<and> active (snd (sendPacket e)) = active e
   \<and> remoteAddress (snd (sendPacket e)) = remoteAddress e
   \<and> remotePort (snd (sendPacket e)) = remotePort e"
  by (simp add: sendPacket_def Let_def split: option.splits prod.splits)

lemma sendPacket_muted_queue:
  "muted e \<Longrightarrow> micBuffer (snd (sendPacket e)) = micBuffer e"
  by (simp add: sendPacket_def Let_def split: option.splits prod.splits)

lemma sendPacket_target:
  assumes "SendTo pkt a p \<in> set (fst (sendPacket e))"
  shows "remoteAddress e = Some a \<and> p = remotePort e"
  using assms
  by (auto simp add: sendPacket_def Let_def falsy_str_def
           split: option.splits prod.splits if_splits)

lemma handleIncoming_frame:
  "muted (snd (handleIncoming e msg rinfo)) = muted e
   \<and> micBuffer (snd (handleIncoming e msg rinfo)) = micBuffer e
   \<and> active (snd (handleIncoming e msg rinfo)) = active e"
  by (simp add: handleIncoming_def Let_def split: option.splits prod.splits)

lemma rtp_step_muted:
  assumes "muted e" and "micBuffer e = []"
  shows "muted (snd (rtp_step e c)) \<and> micBuffer (snd (rtp_step e c)) = []"
proof (cases c)
  case (Feed pcmData)
  with assms show ?thesis by (simp add: feedMicAudio_def)
next
  case Tick
  with assms show ?thesis by (simp add: sendPacket_frame sendPacket_muted_queue)
next
  case (Incoming msg rinfo)
  with assms show ?thesis by (simp add: handleIncoming_frame)
next
  case (UpdateRemote address port)
  with assms show ?thesis by (simp add: updateRemote_def)
qed

lemma rtp_run_muted:
  "muted e \<Longrightarrow> micBuffer e = []
   \<Longrightarrow> muted (snd (rtp_run e cs)) \<and> micBuffer (snd (rtp_run e cs)) = []"
proof (induction cs arbitrary: e)
  case Nil
  then show ?case by simp
next
  case (Cons c cs)
  from Cons.prems have step: "muted (snd (rtp_step e c))" "micBuffer (snd (rtp_step e c)) = []"
    using rtp_step_muted [of e c] by simp_all
  have "snd (rtp_run e (c # cs)) = snd (rtp_run (snd (rtp_step e c)) cs)"
    by (simp add: Let_def split: prod.splits)
  with Cons.IH [OF step] show ?case
    by simp
qed

text \<open>
  C10 (microphone queue and mute). \<open>feedMicAudio\<close> appends the block to the queue
  when the session is active and not muted, and otherwise leaves the engine as it is;
  \<open>setMuted(true)\<close> empties the queue; and whatever microphone blocks, timer ticks,
  datagrams and destination updates reach the engine while it stays muted, the queue
  is empty when \<open>setMuted(false)\<close> returns, so nothing fed before or during the mute
  interval is left to be transmitted.
\<close>

theorem feed_and_mute:
  "(active e \<and> \<not> muted e \<longrightarrow> feedMicAudio e pcmData = e\<lparr>micBuffer := micBuffer e @ [pcmData]\<rparr>)
   \<and> (\<not> active e \<or> muted e \<longrightarrow> feedMicAudio e pcmData = e)
   \<and> micBuffer (setMuted e True) = []
   \<and> micBuffer (setMuted (snd (rtp_run (setMuted e True) calls)) False) = []"
proof -
  have "muted (setMuted e True)" "micBuffer (setMuted e True) = []"
    by (simp_all add: setMuted_def)
  then have "micBuffer (snd (rtp_run (setMuted e True) calls)) = []"
    using rtp_run_muted by blast
  then show ?thesis
    by (simp add: feedMicAudio_def setMuted_def)
qed

theorem feed_and_mute_witness:
  "active started_engine \<and> \<not> muted started_engine
   \<and> feedMicAudio started_engine (0, [1, 0]) = started_engine\<lparr>micBuffer := [(0, [1, 0])]\<rparr>
   \<and> feedMicAudio (stop started_engine) (0, [1, 0]) = stop started_engine
   \<and> micBuffer (setMuted (snd (rtp_run (setMuted (feedMicAudio started_engine (0, [1, 0])) True)
                                  [Feed (0, [2, 0]), Tick, Feed (0, [3, 0])])) False) = []"
proof -
  have a: "active started_engine \<and> \<not> muted started_engine \<and> micBuffer started_engine = []"
    by (simp add: started_engine_def start_def bind_rtp_def RtpEngine_new_def)
  have b: "\<not> active (stop started_engine)"
    by (simp add: stop_def)
  show ?thesis
    using a b
      feed_and_mute [of started_engine "(0, [1, 0])" "[]"]
      feed_and_mute [of "stop started_engine" "(0, [1, 0])" "[]"]
      feed_and_mute [of "feedMicAudio started_engine (0, [1, 0])" "(0, [])" "[Feed (0, [2, 0]), Tick, Feed (0, [3, 0])]"]
    by simp
qed

text \<open>
  C6 (sequence number, timestamp and SSRC of sent packets). Evaluated on the code at
  a session whose timestamp is \<open>2^31 - 160\<close>: the first tick sends a packet carrying
  sequence number 9, that timestamp and SSRC 7, and advances the sequence number to 10,
  but \<open>(timestamp + 160) & 0xFFFFFFFF\<close> is the signed value \<open>-2^31\<close>, not
  \<open>2^31 = (timestamp + 160) mod 2^32\<close>; at the next tick \<open>writeUInt32BE\<close> rejects
  the negative timestamp, so no packet is sent and the engine stays as it is.
\<close>

theorem timestamp_wrap_failure:
  "timestamp started_engine = 2147483488
   \<and> (\<exists>payload. fst (sendPacket started_engine) =
         [SendTo ([0x80, 0, 0, 9, 0x7F, 0xFF, 0xFF, 0x60, 0, 0, 0, 7] @ payload)
            ''203.0.113.5'' (Some 40000)])
   \<and> sequenceNumber (snd (sendPacket started_engine)) = 10
   \<and> ssrc (snd (sendPacket started_engine)) = 7
   \<and> timestamp (snd (sendPacket started_engine)) = - 2147483648
   \<and> timestamp (snd (sendPacket started_engine)) \<noteq> (2147483488 + 160) mod 2 ^ 32
   \<and> sendPacket (snd (sendPacket started_engine)) =
       ([Uncaught RangeError], snd (sendPacket started_engine))"
proof -
  have e: "started_engine =
      \<lparr>socket = True, localPort = 40000, remoteAddress = Some ''203.0.113.5'',
       remotePort = Some 40000, ssrc = 7, sequenceNumber = 9, timestamp = 2147483488,
       payloadType = 0, sendInterval = True, active = True, muted = False, micBuffer = []\<rparr>"
    by (simp add: started_engine_def start_def bind_rtp_def RtpEngine_new_def)
  have and16: "js_and 10 0xFFFF = 10" by code_simp
  have and32: "js_and (2147483488 + 160) 0xFFFFFFFF = - 2147483648" by code_simp
  have and7: "js_and 0 0x7F = 0" by code_simp
  have first: "sendPacket started_engine =
      ([SendTo ([0x80, 0, 0, 9, 0x7F, 0xFF, 0xFF, 0x60, 0, 0, 0, 7] @ replicate 160 0xFF)
          ''203.0.113.5'' (Some 40000)],
       started_engine\<lparr>sequenceNumber := 10, timestamp := - 2147483648\<rparr>)"
    using and16 and32 and7
    by (simp add: e sendPacket_def falsy_str_def buildRtpPacket_def writeUInt16BE_def
        writeUInt32BE_def uint8_store_def SAMPLES_PER_PACKET_def valid_port_def)
  have second: "sendPacket (started_engine\<lparr>sequenceNumber := 10, timestamp := - 2147483648\<rparr>) =
      ([Uncaught RangeError], started_engine\<lparr>sequenceNumber := 10, timestamp := - 2147483648\<rparr>)"
    by (simp add: e sendPacket_def falsy_str_def buildRtpPacket_def writeUInt16BE_def
        writeUInt32BE_def SAMPLES_PER_PACKET_def valid_port_def)
  show ?thesis
    unfolding first snd_conv fst_conv second
    by (simp add: e)
qed

theorem timestamp_wrap_failure_witness:
  "timestamp (snd (sendPacket started_engine)) = - 2147483648
   \<and> fst (sendPacket (snd (sendPacket started_engine))) = [Uncaught RangeError]"
  using timestamp_wrap_failure by simp















section \<open>Claims about digest authentication\<close>

lemma authorization_header_eq:
  assumes "auth ''realm'' = Some realm" and "auth ''nonce'' = Some nonce"
  shows "buildAuthorizationHeader md5 auth method uri username pw =
           ''Digest username='' @ [dquote] @ username @ [dquote]
           @ '', realm='' @ [dquote] @ realm @ [dquote]
           @ '', nonce='' @ [dquote] @ nonce @ [dquote]
           @ '', uri='' @ [dquote] @ uri @ [dquote]
           @ '', response='' @ [dquote]
           @ md5 (md5 (username @ '':'' @ realm @ '':'' @ pw) @ '':'' @ nonce @ '':''
                  @ md5 (method @ '':'' @ uri))
           @ [dquote] @ '', algorithm=MD5''"
  using assms
  by (simp add: computeDigestResponse_def buildAuthorizationHeader_def tmpl_str_def)

lemma challenge_parsed: "parseAuthHeader (Str challenge) = Inr challenge_auth"
  by (simp add: challenge_auth_def challenge_def parseAuthHeader_def
      is_word_def is_space_def is_line_terminator_def char_code_def dquote_def)

lemma challenge_auth_fields:
  "challenge_auth ''realm'' = Some ''asterisk'' \<and> challenge_auth ''nonce'' = Some ''abc123''"
  by (simp add: challenge_auth_def challenge_def parseAuthHeader_def auth_match_at_def
      is_word_def is_space_def is_line_terminator_def char_code_def dquote_def)

text \<open>
  C8 (digest response). For a challenge with realm and nonce, the response is
  \<open>MD5(HA1:nonce:HA2)\<close> with \<open>HA1 = MD5(username:realm:password)\<close> and
  \<open>HA2 = MD5(method:uri)\<close>, and the Authorization header quotes, as \<open>uri\<close>, the
  string that entered \<open>HA2\<close> and, as \<open>response\<close>, that digest.
\<close>

theorem digest_response:
  assumes "auth ''realm'' = Some realm" and "auth ''nonce'' = Some nonce"
  shows "computeDigestResponse md5 auth method uri username pw =
           md5 (md5 (username @ '':'' @ realm @ '':'' @ pw) @ '':'' @ nonce @ '':''
                @ md5 (method @ '':'' @ uri))
         \<and> buildAuthorizationHeader md5 auth method uri username pw =
           ''Digest username='' @ [dquote] @ username @ [dquote]
           @ '', realm='' @ [dquote] @ realm @ [dquote]
           @ '', nonce='' @ [dquote] @ nonce @ [dquote]
           @ '', uri='' @ [dquote] @ uri @ [dquote]
           @ '', response='' @ [dquote]
           @ md5 (md5 (username @ '':'' @ realm @ '':'' @ pw) @ '':'' @ nonce @ '':''
                  @ md5 (method @ '':'' @ uri))
           @ [dquote] @ '', algorithm=MD5''"
  using assms
  by (simp add: computeDigestResponse_def buildAuthorizationHeader_def tmpl_str_def)

text \<open>
  The theorem at the challenge of a registrar with realm \<open>asterisk\<close> and nonce
  \<open>abc123\<close>, as \<open>parseAuthHeader\<close> reads it, with the identity in place of the hash
  so that the hashed strings can be read off.
\<close>

theorem digest_response_witness:
  "challenge_auth ''realm'' = Some ''asterisk'' \<and> challenge_auth ''nonce'' = Some ''abc123''
   \<and> computeDigestResponse (\<lambda>x. x) challenge_auth ''REGISTER'' ''sip:pbx'' ''u'' ''p'' =
       ''u:asterisk:p:abc123:REGISTER:sip:pbx''"
  using challenge_auth_fields
    digest_response [of challenge_auth "''asterisk''" "''abc123''" "\<lambda>x. x"
      "''REGISTER''" "''sip:pbx''" "''u''" "''p''"]
  by simp


section \<open>Claims about the user agent\<close>

lemma send_ua_usable: "transport_usable s \<Longrightarrow> send_ua s m = [Sent m]"
  by (auto simp add: transport_usable_def send_ua_def)

lemma example_ua_usable: "transport_usable example_ua \<and> transport_usable busy_ua"
  by (simp add: transport_usable_def example_ua_def busy_ua_def SipUA_new_def example_config_def)

text \<open>
  C9 (second INVITE while a call is active). While the call is active, handling an
  INVITE leaves the user agent, and with it every field of the call record, as it
  was. If the From header of the request does not occur several times and the
  transport is usable, the user agent sends exactly one message, a 486 Busy Here that
  echoes the Via, From, To, Call-ID and CSeq headers of the request and adds a tag to
  To. If the From header occurs several times, \<open>fromHeader.match\<close> raises a
  TypeError and no response is sent.
\<close>

theorem second_invite_while_active:
  assumes "current_call s = Some c" and "state c = Active"
  shows "snd (handleIncomingInvite s msg rinfo new_tag) = s
         \<and> current_call (snd (handleIncomingInvite s msg rinfo new_tag)) = Some c
         \<and> ((\<forall>xs. headers msg ''from'' \<noteq> Arr xs) \<and> transport_usable s \<longrightarrow>
              fst (handleIncomingInvite s msg rinfo new_tag) =
                [Sent ([''SIP/2.0 486 Busy Here'',
                        ''Via: '' @ tmpl_h (headers msg ''via''),
                        ''From: '' @ (case headers msg ''from'' of Str f \<Rightarrow> f | _ \<Rightarrow> ''''),
                        ''To: '' @ tmpl_h (headers msg ''to'') @ '';tag='' @ new_tag,
                        ''Call-ID: '' @ tmpl_h (headers msg ''call-id''),
                        ''CSeq: '' @ tmpl_h (headers msg ''cseq''),
                        ''Content-Length: 0'',
                        ''''], '''')])
         \<and> ((\<exists>xs. headers msg ''from'' = Arr xs) \<longrightarrow>
              fst (handleIncomingInvite s msg rinfo new_tag) = [Thrown TypeError])"
proof -
  have unchanged: "snd (handleIncomingInvite s msg rinfo new_tag) = s"
    using assms
    by (simp add: handleIncomingInvite_def Let_def split: hval.splits)
  have sends: "fst (handleIncomingInvite s msg rinfo new_tag) =
                [Sent ([''SIP/2.0 486 Busy Here'',
                        ''Via: '' @ tmpl_h (headers msg ''via''),
                        ''From: '' @ (case headers msg ''from'' of Str f \<Rightarrow> f | _ \<Rightarrow> ''''),
                        ''To: '' @ tmpl_h (headers msg ''to'') @ '';tag='' @ new_tag,
                        ''Call-ID: '' @ tmpl_h (headers msg ''call-id''),
                        ''CSeq: '' @ tmpl_h (headers msg ''cseq''),
                        ''Content-Length: 0'',
                        ''''], '''')]"
    if "\<forall>xs. headers msg ''from'' \<noteq> Arr xs" and "transport_usable s"
  proof (cases "headers msg ''from''")
    case Undefined
    with assms that show ?thesis
      by (simp add: handleIncomingInvite_def Let_def or_h_def truthy_h_def send_ua_usable)
  next
    case (Str f)
    with assms that show ?thesis
      by (simp add: handleIncomingInvite_def Let_def or_h_def truthy_h_def send_ua_usable)
  next
    case (Arr xs)
    with that show ?thesis by simp
  qed
  have throws: "fst (handleIncomingInvite s msg rinfo new_tag) = [Thrown TypeError]"
    if "\<exists>xs. headers msg ''from'' = Arr xs"
    using that
    by (auto simp add: handleIncomingInvite_def or_h_def truthy_h_def)
  from unchanged sends throws assms(1) show ?thesis
    by simp
qed

text \<open>
  The theorem at the registered user agent with an active call: the INVITE with one
  From header is answered with 486; for the INVITE with two From header lines the
  handler raises and sends nothing. In both cases the user agent is as before.
\<close>

theorem second_invite_while_active_witness:
  "current_call busy_ua = Some (example_call\<lparr>state := Active\<rparr>)
   \<and> state (example_call\<lparr>state := Active\<rparr>) = Active
   \<and> transport_usable busy_ua
   \<and> snd (handleIncomingInvite busy_ua second_invite (''198.51.100.7'', 5060) ''5e5e'') = busy_ua
   \<and> fst (handleIncomingInvite busy_ua second_invite (''198.51.100.7'', 5060) ''5e5e'') =
       [Sent ([''SIP/2.0 486 Busy Here'',
               ''Via: SIP/2.0/UDP 198.51.100.7:5060;branch=z9hG4bKbeef'',
               ''From: <sip:carol@pbx>;tag=77'',
               ''To: <sip:u@pbx>;tag=5e5e'',
               ''Call-ID: d00d'',
               ''CSeq: 314 INVITE'',
               ''Content-Length: 0'',
               ''''], '''')]
   \<and> headers repeated_from_invite ''from''
       = Arr [''<sip:carol@pbx>;tag=77'', ''<sip:carol@pbx>;tag=77'']
   \<and> fst (handleIncomingInvite busy_ua repeated_from_invite (''198.51.100.7'', 5060) ''5e5e'')
       = [Thrown TypeError]
   \<and> snd (handleIncomingInvite busy_ua repeated_from_invite (''198.51.100.7'', 5060) ''5e5e'')
       = busy_ua"
proof -
  have c: "current_call busy_ua = Some (example_call\<lparr>state := Active\<rparr>)"
    by (simp add: busy_ua_def)
  have a: "state (example_call\<lparr>state := Active\<rparr>) = Active"
    by simp
  have f: "\<forall>xs. headers second_invite ''from'' \<noteq> Arr xs"
    by (simp add: second_invite_def)
  have r: "headers repeated_from_invite ''from''
       = Arr [''<sip:carol@pbx>;tag=77'', ''<sip:carol@pbx>;tag=77'']"
    by (simp add: repeated_from_invite_def)
  have u: "transport_usable busy_ua"
    using example_ua_usable by simp
  note t = second_invite_while_active [OF c a, of second_invite "(''198.51.100.7'', 5060)" "''5e5e''"]
  note t' = second_invite_while_active [OF c a, of repeated_from_invite "(''198.51.100.7'', 5060)"
      "''5e5e''"]
  from t have unchanged: "snd (handleIncomingInvite busy_ua second_invite (''198.51.100.7'', 5060) ''5e5e'') = busy_ua"
    by (rule conjunct1)
  from t' have unchanged': "snd (handleIncomingInvite busy_ua repeated_from_invite (''198.51.100.7'', 5060) ''5e5e'') = busy_ua"
    by (rule conjunct1)
  from t f u have "fst (handleIncomingInvite busy_ua second_invite (''198.51.100.7'', 5060) ''5e5e'') =
       [Sent ([''SIP/2.0 486 Busy Here'',
               ''Via: '' @ tmpl_h (headers second_invite ''via''),
               ''From: '' @ (case headers second_invite ''from'' of Str f \<Rightarrow> f | _ \<Rightarrow> ''''),
               ''To: '' @ tmpl_h (headers second_invite ''to'') @ '';tag='' @ ''5e5e'',
               ''Call-ID: '' @ tmpl_h (headers second_invite ''call-id''),
               ''CSeq: '' @ tmpl_h (headers second_invite ''cseq''),
               ''Content-Length: 0'',
               ''''], '''')]"
    by blast
  then have sent: "fst (handleIncomingInvite busy_ua second_invite (''198.51.100.7'', 5060) ''5e5e'') =
       [Sent ([''SIP/2.0 486 Busy Here'',
               ''Via: SIP/2.0/UDP 198.51.100.7:5060;branch=z9hG4bKbeef'',
               ''From: <sip:carol@pbx>;tag=77'',
               ''To: <sip:u@pbx>;tag=5e5e'',
               ''Call-ID: d00d'',
               ''CSeq: 314 INVITE'',
               ''Content-Length: 0'',
               ''''], '''')]"
    by (simp add: second_invite_def tmpl_h_def)
  from t' r have thrown: "fst (handleIncomingInvite busy_ua repeated_from_invite (''198.51.100.7'', 5060) ''5e5e'')
       = [Thrown TypeError]"
    by blast
  from c a u unchanged sent r thrown unchanged' show ?thesis
    by (intro conjI)
qed

lemma example_ua_fields:
  "current_call example_ua = Some example_call
   \<and> config example_ua = example_config
   \<and> localIp example_ua = Some ''192.0.2.1''
   \<and> ua_localPort example_ua = 5070"
  by (simp add: example_ua_def SipUA_new_def example_config_def)

lemma show_nat_small:
  "show_nat (Suc 0) = ''1''" "show_nat (Suc (Suc 0)) = ''2''"
  "show_nat (Suc (Suc (Suc 0))) = ''3''" "show_nat 5070 = ''5070''"
  by (simp_all add: show_nat.simps digit_char_def)

lemma udp_case: "toUpperCase ''udp'' = ''UDP''" "toLowerCase ''udp'' = ''udp''"
  by code_simp+

lemma to_tag_match:
  "match_lit_run '';tag='' (\<lambda>ch. \<not> is_space ch \<and> ch \<noteq> CHR '';'') ''<sip:bob@pbx>;tag=9f8e''
   = Some ''9f8e''"
  by (simp add: match_lit_run.simps is_space_def char_code_def)

text \<open>
  C3 (ACK and resent INVITE after a 401). Evaluated on the code: the call's INVITE
  went out with branch \<open>z9hG4bK0000000000000001\<close> and CSeq 1; \<open>generateBranch()\<close>
  returns \<open>z9hG4bK00000000000000a1\<close> inside \<open>_buildAck\<close> and
  \<open>z9hG4bK00000000000000b2\<close> inside \<open>_buildInviteWithAuth\<close>. The ACK carries
  CSeq \<open>1 ACK\<close> and the To tag of the response, but its Via branch is the newly
  generated one, not the branch of the INVITE. The resent INVITE carries the second
  new branch, CSeq 2, an Authorization header, and the Call-ID and From tag of the call.
\<close>

theorem ack_after_401_uses_new_branch:
  "branch example_call = Some ''z9hG4bK0000000000000001''
   \<and> fst (handleInviteResponse md5 example_ua response_401 None
             ''z9hG4bK00000000000000a1'' ''z9hG4bK00000000000000b2'') =
       [Sent ([''ACK sip:bob@pbx SIP/2.0'',
               ''Via: SIP/2.0/UDP 192.0.2.1:5070;branch=z9hG4bK00000000000000a1;rport'',
               ''Max-Forwards: 70'',
               ''From: '' @ [dquote] @ ''SIP Phone'' @ [dquote] @ '' <sip:u@pbx>;tag=a1b2'',
               ''To: <sip:bob@pbx>;tag=9f8e'',
               ''Call-ID: c0ffee'',
               ''CSeq: 1 ACK'',
               ''Content-Length: 0'',
               ''''], ''''),
        Sent ([''INVITE sip:bob@pbx SIP/2.0'',
               ''Via: SIP/2.0/UDP 192.0.2.1:5070;branch=z9hG4bK00000000000000b2;rport'',
               ''Max-Forwards: 70'',
               ''From: '' @ [dquote] @ ''SIP Phone'' @ [dquote] @ '' <sip:u@pbx>;tag=a1b2'',
               ''To: <sip:bob@pbx>'',
               ''Call-ID: c0ffee'',
               ''CSeq: 2 INVITE'',
               ''Contact: <sip:u@192.0.2.1:5070;transport=udp>'',
               ''Authorization: Digest username='' @ [dquote] @ ''u'' @ [dquote]
                 @ '', realm='' @ [dquote] @ ''asterisk'' @ [dquote]
                 @ '', nonce='' @ [dquote] @ ''abc123'' @ [dquote]
                 @ '', uri='' @ [dquote] @ ''sip:bob@pbx'' @ [dquote]
                 @ '', response='' @ [dquote]
                 @ md5 (md5 ''u:asterisk:p'' @ '':abc123:'' @ md5 ''INVITE:sip:bob@pbx'')
                 @ [dquote] @ '', algorithm=MD5'',
               ''Content-Type: application/sdp'',
               ''Allow: INVITE, ACK, BYE, CANCEL, OPTIONS, INFO, NOTIFY, REFER'',
               ''User-Agent: SIPPhone/2.0'',
               ''Content-Length: 3'',
               ''''], ''v=0'')]"
proof -
  have hdr: "headers response_401 ''to'' = Str ''<sip:bob@pbx>;tag=9f8e''"
      "headers response_401 ''www-authenticate'' = Str challenge"
      "statusCode response_401 = 401"
    by (simp_all add: response_401_def)
  have ch: "challenge \<noteq> []"
    by (simp add: challenge_def)
  have auth: "buildAuthorizationHeader md5 challenge_auth ''INVITE'' ''sip:bob@pbx'' ''u'' ''p'' =
      ''Digest username='' @ [dquote] @ ''u'' @ [dquote]
      @ '', realm='' @ [dquote] @ ''asterisk'' @ [dquote]
      @ '', nonce='' @ [dquote] @ ''abc123'' @ [dquote]
      @ '', uri='' @ [dquote] @ ''sip:bob@pbx'' @ [dquote]
      @ '', response='' @ [dquote]
      @ md5 (md5 ''u:asterisk:p'' @ '':abc123:'' @ md5 ''INVITE:sip:bob@pbx'')
      @ [dquote] @ '', algorithm=MD5''"
    using challenge_auth_fields
      authorization_header_eq [of challenge_auth "''asterisk''" "''abc123''" md5
        "''INVITE''" "''sip:bob@pbx''" "''u''" "''p''"]
    by simp
  have ack: "buildAck example_ua (example_call\<lparr>toTag := Some ''9f8e''\<rparr>)
               ''z9hG4bK00000000000000a1'' (Some ''9f8e'') =
      ([''ACK sip:bob@pbx SIP/2.0'',
        ''Via: SIP/2.0/UDP 192.0.2.1:5070;branch=z9hG4bK00000000000000a1;rport'',
        ''Max-Forwards: 70'',
        ''From: '' @ [dquote] @ ''SIP Phone'' @ [dquote] @ '' <sip:u@pbx>;tag=a1b2'',
        ''To: <sip:bob@pbx>;tag=9f8e'',
        ''Call-ID: c0ffee'',
        ''CSeq: 1 ACK'',
        ''Content-Length: 0'',
        ''''], '''')"
    by (simp add: buildAck_def via_line_def from_line_def viaTransport_def example_ua_fields
        example_config_def example_call_def tmpl_str_def tmpl_null_def tmpl_h_def
        udp_case show_nat_small)
  have inv: "buildInviteWithAuth md5 example_ua (example_call\<lparr>toTag := Some ''9f8e''\<rparr>)
               (Str challenge) ''z9hG4bK00000000000000b2'' =
      (Inr ([''INVITE sip:bob@pbx SIP/2.0'',
             ''Via: SIP/2.0/UDP 192.0.2.1:5070;branch=z9hG4bK00000000000000b2;rport'',
             ''Max-Forwards: 70'',
             ''From: '' @ [dquote] @ ''SIP Phone'' @ [dquote] @ '' <sip:u@pbx>;tag=a1b2'',
             ''To: <sip:bob@pbx>'',
             ''Call-ID: c0ffee'',
             ''CSeq: 2 INVITE'',
             ''Contact: <sip:u@192.0.2.1:5070;transport=udp>'',
             ''Authorization: '' @ buildAuthorizationHeader md5 challenge_auth ''INVITE''
                                    ''sip:bob@pbx'' ''u'' ''p'',
             ''Content-Type: application/sdp'',
             ''Allow: INVITE, ACK, BYE, CANCEL, OPTIONS, INFO, NOTIFY, REFER'',
             ''User-Agent: SIPPhone/2.0'',
             ''Content-Length: 3'',
             ''''], ''v=0''),
       example_call\<lparr>toTag := Some ''9f8e'', cseq := 2,
                      branch := Some ''z9hG4bK00000000000000b2''\<rparr>)"
    by (simp add: buildInviteWithAuth_def challenge_parsed via_line_def from_line_def
        contact_line_def allow_line_def viaTransport_def contactTransport_def
        example_ua_fields example_config_def example_call_def tmpl_str_def tmpl_null_def
        tmpl_h_def udp_case show_nat_small)
  have "fst (handleInviteResponse md5 example_ua response_401 None
             ''z9hG4bK00000000000000a1'' ''z9hG4bK00000000000000b2'') =
      [Sent (buildAck example_ua (example_call\<lparr>toTag := Some ''9f8e''\<rparr>)
               ''z9hG4bK00000000000000a1'' (Some ''9f8e'')),
       Sent (case fst (buildInviteWithAuth md5 example_ua (example_call\<lparr>toTag := Some ''9f8e''\<rparr>)
                         (Str challenge) ''z9hG4bK00000000000000b2'') of Inr m \<Rightarrow> m)]"
    using example_ua_usable ch
    by (simp add: handleInviteResponse_def hdr or_h_def truthy_h_def to_tag_match
        example_ua_fields falsy_str_def send_ua_usable inv Let_def)
  moreover have "branch example_call = Some ''z9hG4bK0000000000000001''"
    by (simp add: example_call_def)
  ultimately show ?thesis
    by (simp add: ack inv auth)
qed

theorem ack_after_401_uses_new_branch_witness:
  "transport_usable example_ua
   \<and> (\<exists>ack invite.
        fst (handleInviteResponse (\<lambda>x. x) example_ua response_401 None
               ''z9hG4bK00000000000000a1'' ''z9hG4bK00000000000000b2'') = [Sent ack, Sent invite]
        \<and> fst ack ! 1 = ''Via: SIP/2.0/UDP 192.0.2.1:5070;branch=z9hG4bK00000000000000a1;rport''
        \<and> fst invite ! 6 = ''CSeq: 2 INVITE'')"
  using example_ua_usable ack_after_401_uses_new_branch [of "\<lambda>x. x"]
  by simp


section \<open>The CSeq of REGISTER requests\<close>

lemma digit_char_props:
  assumes "d < 10"
  shows "is_digit (digit_char d) \<and> digit_value (digit_char d) = d"
proof -
  from assms have "d = 0 \<or> d = 1 \<or> d = 2 \<or> d = 3 \<or> d = 4 \<or> d = 5 \<or> d = 6 \<or> d = 7
      \<or> d = 8 \<or> d = 9"
    by arith
  then show ?thesis
    by (elim disjE) (simp_all add: digit_char_def is_digit_def digit_value_def char_code_def)
qed

lemma show_nat_digits: "list_all is_digit (show_nat n)"
proof (induction n rule: show_nat.induct)
  case (1 n)
  show ?case
  proof (cases "n < 10")
    case True
    then show ?thesis
      by (subst show_nat.simps) (simp add: digit_char_props)
  next
    case False
    with 1 show ?thesis
      by (subst show_nat.simps) (simp add: digit_char_props)
  qed
qed

lemma show_nat_value: "radix_value 10 (show_nat n) = n"
proof (induction n rule: show_nat.induct)
  case (1 n)
  show ?case
  proof (cases "n < 10")
    case True
    then show ?thesis
      by (subst show_nat.simps) (simp add: radix_value_def digit_char_props)
  next
    case False
    with 1 have "radix_value 10 (show_nat (n div 10)) = n div 10"
      by simp
    with False show ?thesis
      by (subst show_nat.simps) (simp add: radix_value_def digit_char_props)
  qed
qed

lemma cseq_digits:
  "radix_value 10 (takeWhile is_digit (show_nat n @ '' REGISTER'')) = n"
proof -
  have "\<not> is_digit CHR '' ''"
    by (simp add: is_digit_def char_code_def)
  moreover have "\<forall>c\<in>set (show_nat n). is_digit c"
    using show_nat_digits [of n] by (simp add: list_all_iff)
  ultimately have "takeWhile is_digit (show_nat n @ CHR '' '' # ''REGISTER'') = show_nat n"
    by (simp add: takeWhile_tail)
  then show ?thesis
    by (simp add: show_nat_value)
qed

lemma buildRegister_props:
  "is_register (buildRegister s b e) \<and> cseq_number (buildRegister s b e) = registerCSeq s
   \<and> register_headers s (buildRegister s b e)"
  by (simp add: buildRegister_def is_register_def cseq_number_def register_headers_def
      header_value_def via_line_def from_line_def cseq_digits)

lemma buildRegisterWithAuth_props:
  assumes "buildRegisterWithAuth md5 s h b e = (Inr m, s')"
  shows "is_register m \<and> cseq_number m = registerCSeq s' \<and> register_headers s' m
         \<and> s' = s\<lparr>registerCSeq := registerCSeq s + 1\<rparr>"
  using assms
  by (auto simp add: buildRegisterWithAuth_def Let_def is_register_def cseq_number_def
      register_headers_def header_value_def via_line_def from_line_def cseq_digits
      split: sum.splits)

lemma buildRegisterWithAuth_state:
  "snd (buildRegisterWithAuth md5 s h b e) = s\<lparr>registerCSeq := registerCSeq s + 1\<rparr>"
  by (simp add: buildRegisterWithAuth_def Let_def split: sum.splits)

lemma other_requests_not_register:
  "\<not> is_register (buildCancel s c) \<and> \<not> is_register (build486 c t)
   \<and> \<not> is_register (buildBye s c b)"
  by (simp add: is_register_def buildCancel_def build486_def buildBye_def Let_def)

lemma sent_registers_send:
  "sent_registers (send_ua s m) = (if transport_usable s \<and> is_register m then [m] else [])"
  by (auto simp add: send_ua_def transport_usable_def)


text \<open>
  One event: the registration identity is kept, \<open>registerCSeq\<close> does not decrease,
  and at most one REGISTER is sent; if one is sent, \<open>registerCSeq\<close> has grown and the
  REGISTER carries its new value.
\<close>


lemma register_headers_cong:
  "config s' = config s \<Longrightarrow> registerCallId s' = registerCallId s \<Longrightarrow> localTag s' = localTag s
   \<Longrightarrow> register_headers s' m = register_headers s m"
  by (simp add: register_headers_def)

lemma step_ok_sendI:
  assumes "config s' = config s" "registerCallId s' = registerCallId s" "localTag s' = localTag s"
    and "config sb = config s" "registerCallId sb = registerCallId s" "localTag sb = localTag s"
    and "registerCSeq s < registerCSeq s'" "registerCSeq sb = registerCSeq s'"
  shows "step_ok s (send_ua st (buildRegister sb b e)) s'"
proof -
  have "register_headers sb (buildRegister sb b e)"
    using buildRegister_props by simp
  then have "register_headers s (buildRegister sb b e)"
    using assms(4-6) register_headers_cong [of sb s] by simp
  moreover have "cseq_number (buildRegister sb b e) = registerCSeq s'"
    using buildRegister_props assms(8) by simp
  ultimately show ?thesis
    using assms(1-3,7)
    by (cases "buildRegister sb b e") (auto simp add: step_ok_def sent_registers_send)
qed

lemma step_ok_noneI:
  assumes "config s' = config s" "registerCallId s' = registerCallId s" "localTag s' = localTag s"
    and "registerCSeq s \<le> registerCSeq s'" "sent_registers out = []"
  shows "step_ok s out s'"
  using assms by (simp add: step_ok_def)

lemma sent_registers_append:
  "sent_registers (xs @ ys) = sent_registers xs @ sent_registers ys"
  by (induction xs rule: sent_registers.induct) simp_all

lemma start_ua_keeps:
  "config (fst (snd (start_ua s ip conn))) = config s
   \<and> registerCallId (fst (snd (start_ua s ip conn))) = registerCallId s
   \<and> localTag (fst (snd (start_ua s ip conn))) = localTag s
   \<and> registerCSeq (fst (snd (start_ua s ip conn))) = registerCSeq s
   \<and> sent_registers (fst (start_ua s ip conn)) = []"
  by (simp add: start_ua_def Let_def split: option.splits)

lemma step_register:
  "step_ok s (fst (register_ua s ip conn b)) (snd (register_ua s ip conn b))"
proof -
  obtain out s1 ok where st: "start_ua s ip conn = (out, s1, ok)"
    by (cases "start_ua s ip conn")
  with start_ua_keeps [of s ip conn]
  have keeps: "config s1 = config s" "registerCallId s1 = registerCallId s"
      "localTag s1 = localTag s" "registerCSeq s1 = registerCSeq s" "sent_registers out = []"
    by simp_all
  show ?thesis
  proof (cases ok)
    case False
    with st keeps show ?thesis
      by (simp add: register_ua_def step_ok_noneI)
  next
    case True
    let ?s2 = "s1\<lparr>registerCSeq := registerCSeq s1 + 1, registerRetryCount := 0\<rparr>"
    have "step_ok s (send_ua ?s2 (buildRegister ?s2 b 300)) (?s2\<lparr>registerRetryTimer := True\<rparr>)"
      using keeps by (intro step_ok_sendI) simp_all
    then have "step_ok s (out @ send_ua ?s2 (buildRegister ?s2 b 300))
                 (?s2\<lparr>registerRetryTimer := True\<rparr>)"
      using keeps(5) by (simp add: step_ok_def sent_registers_append)
    with st True show ?thesis
      by (simp add: register_ua_def Let_def)
  qed
qed

lemma step_retry:
  "step_ok s (fst (register_retry_timeout (s\<lparr>registerRetryTimer := False\<rparr>) b))
     (snd (register_retry_timeout (s\<lparr>registerRetryTimer := False\<rparr>) b))"
  by (simp add: register_retry_timeout_def Let_def step_ok_sendI step_ok_noneI)

lemma step_refresh: "step_ok s (fst (register_refresh s b)) (snd (register_refresh s b))"
  by (simp add: register_refresh_def Let_def step_ok_sendI)

lemma step_unregister: "step_ok s (fst (unregister s b)) (snd (unregister s b))"
  by (simp add: unregister_def Let_def step_ok_sendI step_ok_noneI)

lemma step_response:
  "step_ok s (fst (handleRegisterResponse md5 s msg b)) (snd (handleRegisterResponse md5 s msg b))"
proof -
  let ?s1 = "s\<lparr>registerRetryTimer := False\<rparr>"
  let ?h = "or_h (headers msg ''www-authenticate'') (headers msg ''proxy-authenticate'')"
  obtain r s2 where built: "buildRegisterWithAuth md5 ?s1 ?h b 300 = (r, s2)"
    by (cases "buildRegisterWithAuth md5 ?s1 ?h b 300")
  then have s2: "s2 = ?s1\<lparr>registerCSeq := registerCSeq ?s1 + 1\<rparr>"
    using buildRegisterWithAuth_state [of md5 ?s1 ?h b 300] by simp
  define res where "res = (case (r, s2) of
        (Inl err, s2) \<Rightarrow> ([Thrown err], s2)
      | (Inr authedRegister, s2) \<Rightarrow>
          (send_ua s2 authedRegister, s2\<lparr>registerRetryTimer := True\<rparr>))"
  have challenged: "step_ok s (fst res) (snd res)"
  proof (cases r)
    case (Inl err)
    with s2 show ?thesis
      by (simp add: res_def step_ok_noneI)
  next
    case (Inr m)
    with built have "buildRegisterWithAuth md5 ?s1 ?h b 300 = (Inr m, s2)"
      by simp
    from buildRegisterWithAuth_props [OF this]
    have m: "is_register m" "cseq_number m = registerCSeq s2" "register_headers s2 m"
      by blast+
    have "register_headers s2 m = register_headers s m"
      using s2 by (intro register_headers_cong) simp_all
    with m have "register_headers s m"
      by simp
    with m(1,2) Inr s2 show ?thesis
      by (cases m) (auto simp add: res_def step_ok_def sent_registers_send)
  qed
  show ?thesis
    using challenged built
    by (simp add: handleRegisterResponse_def Let_def step_ok_noneI res_def)
qed

lemma step_stop: "step_ok s (fst (stop_ua s b t)) (snd (stop_ua s b t))"
  by (auto simp add: step_ok_def stop_ua_def hangup_def endCall_def Let_def sent_registers_send
      other_requests_not_register split: option.splits prod.splits if_splits)

lemma reg_step_ok: "step_ok s (fst (reg_step md5 s ev)) (snd (reg_step md5 s ev))"
proof (cases ev)
  case (Do_register local_ip conn b)
  then show ?thesis using step_register by simp
next
  case (Retry_timeout b)
  then show ?thesis using step_retry [of s b] by (simp add: step_ok_def)
next
  case (Register_response msg b)
  then show ?thesis using step_response by simp
next
  case (Refresh_tick b)
  then show ?thesis using step_refresh [of s b] by (simp add: step_ok_def)
next
  case (Do_unregister b)
  then show ?thesis using step_unregister by simp
next
  case (Do_stop b t)
  then show ?thesis using step_stop by simp
next
  case Tcp_closed
  then show ?thesis by (simp add: step_ok_def tcp_closed_def)
qed

text \<open>
  A run of events: the numbers of the REGISTER requests sent lie above the initial
  and at most at the final \<open>registerCSeq\<close>, in strictly increasing order.
\<close>

lemma reg_run_ok:
  "config (snd (reg_run md5 s evs)) = config s
   \<and> registerCallId (snd (reg_run md5 s evs)) = registerCallId s
   \<and> localTag (snd (reg_run md5 s evs)) = localTag s
   \<and> registerCSeq s \<le> registerCSeq (snd (reg_run md5 s evs))
   \<and> sorted_wrt (<) (map cseq_number (sent_registers (fst (reg_run md5 s evs))))
   \<and> (\<forall>m\<in>set (sent_registers (fst (reg_run md5 s evs))).
         registerCSeq s < cseq_number m
         \<and> cseq_number m \<le> registerCSeq (snd (reg_run md5 s evs))
         \<and> register_headers s m)"
proof (induction evs arbitrary: s)
  case Nil
  show ?case by simp
next
  case (Cons ev evs)
  define out1 where "out1 = fst (reg_step md5 s ev)"
  define s1 where "s1 = snd (reg_step md5 s ev)"
  define out2 where "out2 = fst (reg_run md5 s1 evs)"
  define s2 where "s2 = snd (reg_run md5 s1 evs)"
  have run: "reg_run md5 s (ev # evs) = (out1 @ out2, s2)"
    by (simp add: out1_def s1_def out2_def s2_def Let_def split: prod.splits)
  have step: "step_ok s out1 s1"
    unfolding out1_def s1_def by (rule reg_step_ok)
  note ih = Cons.IH [of s1, folded out2_def s2_def]
  have ids: "config s1 = config s" "registerCallId s1 = registerCallId s" "localTag s1 = localTag s"
      "registerCSeq s \<le> registerCSeq s1"
    using step by (simp_all add: step_ok_def)
  have hdr: "register_headers s1 m = register_headers s m" for m
    using ids by (intro register_headers_cong) simp_all
  have first: "\<forall>m\<in>set (sent_registers out1).
      registerCSeq s < cseq_number m \<and> cseq_number m \<le> registerCSeq s1 \<and> register_headers s m"
    using step by (auto simp add: step_ok_def)
  have sorted1: "sorted_wrt (<) (map cseq_number (sent_registers out1))"
    using step by (auto simp add: step_ok_def)
  have later: "\<forall>m\<in>set (sent_registers out2).
      registerCSeq s1 < cseq_number m \<and> cseq_number m \<le> registerCSeq s2 \<and> register_headers s m"
    using ih hdr by simp
  have cross: "\<forall>a\<in>set (sent_registers out1). \<forall>b\<in>set (sent_registers out2).
      cseq_number a < cseq_number b"
    using first later by fastforce
  have "sorted_wrt (<) (map cseq_number (sent_registers (out1 @ out2)))"
    using sorted1 ih cross
    by (simp add: sent_registers_append sorted_wrt_append)
  moreover have "\<forall>m\<in>set (sent_registers (out1 @ out2)).
      registerCSeq s < cseq_number m \<and> cseq_number m \<le> registerCSeq s2 \<and> register_headers s m"
    using first later ids ih by (fastforce simp add: sent_registers_append)
  moreover have "config s2 = config s" "registerCallId s2 = registerCallId s"
      "localTag s2 = localTag s" "registerCSeq s \<le> registerCSeq s2"
    using ih ids by simp_all
  ultimately show ?case
    unfolding run fst_conv snd_conv by blast
qed

text \<open>
  C2 (CSeq of REGISTER). Whatever sequence of registration events the user agent
  goes through (\<open>register()\<close>, retry timeouts, responses to REGISTER with or without a
  challenge, refresh ticks, \<open>unregister()\<close>, \<open>stop()\<close>, loss of the connection), the
  CSeq numbers of the REGISTER requests it sends are strictly increasing in the order
  of sending and greater than the CSeq counter it started from, and each of these
  requests carries the Call-ID and the From header, with the local tag, of the initial
  user agent; the user agent's Call-ID and local tag are the same at the end.
\<close>

theorem register_cseq_strictly_increasing:
  "sorted_wrt (<) (map cseq_number (sent_registers (fst (reg_run md5 s evs))))
   \<and> (\<forall>m\<in>set (sent_registers (fst (reg_run md5 s evs))).
         registerCSeq s < cseq_number m \<and> register_headers s m)
   \<and> registerCallId (snd (reg_run md5 s evs)) = registerCallId s
   \<and> localTag (snd (reg_run md5 s evs)) = localTag s"
  using reg_run_ok [of md5 s evs] by simp

lemma registration_run_numbers:
  "map cseq_number (sent_registers (fst (reg_run (\<lambda>x. x) fresh_ua registration_events)))
   = [1, 2, 3, 4, 5]"
proof -
  have usable: "transport_usable (s\<lparr>udpSocket := True\<rparr>)" if "transport (config s) = ''udp''" for s
    using that by (simp add: transport_usable_def)
  have hdr: "headers response_401_register ''www-authenticate'' = Str challenge"
      "statusCode response_401_register = 401" "statusCode response_200_register = 200"
    by (simp_all add: response_401_register_def response_200_register_def)
  have ch: "challenge \<noteq> []"
    by (simp add: challenge_def)
  have cfg: "transport (config fresh_ua) = ''udp''" "registerCSeq fresh_ua = 0"
      "\<not> registered fresh_ua" "registerRetryCount fresh_ua = 0" "maxRegisterRetries fresh_ua = 3"
    by (simp_all add: fresh_ua_def SipUA_new_def example_config_def)
  have auth_props: "is_register (case fst (buildRegisterWithAuth md5 s (Str challenge) b e) of Inr m \<Rightarrow> m)
      \<and> cseq_number (case fst (buildRegisterWithAuth md5 s (Str challenge) b e) of Inr m \<Rightarrow> m)
          = registerCSeq s + 1" for md5 s b e
    by (simp add: buildRegisterWithAuth_def challenge_parsed Let_def is_register_def
        cseq_number_def header_value_def via_line_def from_line_def cseq_digits)
  have auth_case: "buildRegisterWithAuth md5 s (Str challenge) b e =
      (Inr (case fst (buildRegisterWithAuth md5 s (Str challenge) b e) of Inr m \<Rightarrow> m),
       s\<lparr>registerCSeq := registerCSeq s + 1\<rparr>)" for md5 s b e
    by (simp add: buildRegisterWithAuth_def challenge_parsed Let_def)
  show ?thesis
    unfolding registration_events_def
    apply (simp add: register_ua_def start_ua_def cfg Let_def handleRegisterResponse_def hdr
        or_h_def truthy_h_def ch register_retry_timeout_def register_refresh_def unregister_def
        sent_registers_append sent_registers_send transport_usable_def buildRegister_props)
    apply (subst auth_case)
    apply (simp add: sent_registers_append sent_registers_send transport_usable_def cfg
        buildRegister_props auth_props register_retry_timeout_def register_refresh_def
        unregister_def handleRegisterResponse_def hdr Let_def)
    done
qed

text \<open>
  The theorem at a whole registration: \<open>register()\<close>, a 401 challenge, a retry
  timeout, the 200, a refresh and \<open>unregister()\<close> send five REGISTER requests,
  numbered 1 to 5, under the Call-ID and local tag of the constructor.
\<close>

theorem register_cseq_strictly_increasing_witness:
  "map cseq_number (sent_registers (fst (reg_run (\<lambda>x. x) fresh_ua registration_events)))
     = [1, 2, 3, 4, 5]
   \<and> sorted_wrt (<)
        (map cseq_number (sent_registers (fst (reg_run (\<lambda>x. x) fresh_ua registration_events))))
   \<and> registerCallId (snd (reg_run (\<lambda>x. x) fresh_ua registration_events)) = ''cafe''
   \<and> localTag (snd (reg_run (\<lambda>x. x) fresh_ua registration_events)) = ''f00d''"
proof -
  note t = register_cseq_strictly_increasing [of "\<lambda>x. x" fresh_ua registration_events]
  have ids: "registerCallId fresh_ua = ''cafe''" "localTag fresh_ua = ''f00d''"
    by (simp_all add: fresh_ua_def SipUA_new_def)
  from t have "sorted_wrt (<)
        (map cseq_number (sent_registers (fst (reg_run (\<lambda>x. x) fresh_ua registration_events))))"
    by (rule conjunct1)
  moreover from t have "registerCallId (snd (reg_run (\<lambda>x. x) fresh_ua registration_events)) = ''cafe''"
    using ids by simp
  moreover from t have "localTag (snd (reg_run (\<lambda>x. x) fresh_ua registration_events)) = ''f00d''"
    using ids by simp
  ultimately show ?thesis
    using registration_run_numbers by (intro conjI)
qed


section \<open>Claims about TCP framing\<close>

lemma framed_bytes:
  "framed_1 = [83, 73, 80, 47, 50, 46, 48, 32, 50, 48, 48, 32, 79, 75, 13, 10, 67, 111,
     110, 116, 101, 110, 116, 45, 76, 101, 110, 103, 116, 104, 58, 32, 50, 13,
     10, 13, 10, 195, 169]"
  "framed_2 = [83, 73, 80, 47, 50, 46, 48, 32, 49, 56, 48, 32, 82, 105, 110, 103, 105,
     110, 103, 13, 10, 67, 111, 110, 116, 101, 110, 116, 45, 76, 101, 110,
     103, 116, 104, 58, 32, 48, 13, 10, 13, 10]"
  by (simp_all add: framed_1_def framed_2_def bytes_of_def char_code_def CRLF_def)

lemma pattern_units:
  "units (CRLF @ CRLF) = [13, 10, 13, 10]"
  "units ''content-length:'' = [99, 111, 110, 116, 101, 110, 116, 45, 108, 101, 110, 103, 116, 104, 58]"
  by (simp_all add: units_def char_code_def CRLF_def)

lemma frames_empty: "tcp_frames [] = ([], [])"
  by (simp add: tcp_frames.simps)

lemma frames_second:
  "tcp_frames (tl framed_2) = ([tl framed_2], [])"
  unfolding framed_bytes
  by (subst tcp_frames.simps)
     (simp add: pattern_units frames_empty is_cont_def lower_unit_def is_space_unit_def
        is_digit_unit_def digits_value_def)

lemma frames_first:
  "tcp_frames (framed_1 @ framed_2) = ((framed_1 @ [0x53]) # fst (tcp_frames (tl framed_2)),
                                       snd (tcp_frames (tl framed_2)))"
  unfolding framed_bytes
  by (subst tcp_frames.simps)
     (simp add: pattern_units is_cont_def lower_unit_def is_space_unit_def
        is_digit_unit_def digits_value_def split: prod.splits)

text \<open>
  C7 (two framed messages in one read). Evaluated on the code: the first message has
  \<open>Content-Length: 2\<close> and the two-byte body \<open>C3 A9\<close>, one character after
  decoding. The framer adds the content length to a character index, so the first
  frame it delivers is the first message and the first byte of the second; the second
  frame is the second message without its first byte, where the two frames should be
  the two messages; the buffer is left empty.
\<close>

theorem tcp_framing_multibyte_body:
  "fst (handleTcpData (s\<lparr>tcpBuffer := []\<rparr>) (framed_1 @ framed_2)) =
     [framed_1 @ [0x53], tl framed_2]
   \<and> fst (handleTcpData (s\<lparr>tcpBuffer := []\<rparr>) (framed_1 @ framed_2)) \<noteq> [framed_1, framed_2]
   \<and> tcpBuffer (snd (handleTcpData (s\<lparr>tcpBuffer := []\<rparr>) (framed_1 @ framed_2))) = []"
proof -
  have "tcp_frames (framed_1 @ framed_2) = ([framed_1 @ [0x53], tl framed_2], [])"
    by (simp add: frames_first frames_second)
  then show ?thesis
    by (simp add: handleTcpData_def)
qed

theorem tcp_framing_multibyte_body_witness:
  "fst (handleTcpData (fresh_ua\<lparr>tcpBuffer := []\<rparr>) (framed_1 @ framed_2)) =
     [framed_1 @ [0x53], tl framed_2]
   \<and> tcpBuffer (snd (handleTcpData (fresh_ua\<lparr>tcpBuffer := []\<rparr>) (framed_1 @ framed_2))) = []"
  using tcp_framing_multibyte_body [of fresh_ua] by simp


end
